theory Spec2Isabelle
  imports Main "HOL-Library.Sublist"
begin

section \<open>JavaScript strings, arrays and objects\<close>

text \<open>
  Strings are byte strings (\<^typ>\<open>string\<close>); a character outside ASCII stands as its UTF-8
  bytes. The separator of content identifiers and of paths is the slash.
\<close>

abbreviation sep :: char where
  "sep \<equiv> CHR ''/''"

text \<open>
  \<^verbatim>\<open>s.split(c)\<close> for a one-character separator: the pieces between the occurrences of the
  separator. The result is never the empty array; the empty string splits into one empty piece.
\<close>

fun split_js :: "char \<Rightarrow> string \<Rightarrow> string list" where
  "split_js c [] = [[]]"
| "split_js c (x # xs) =
     (if x = c then [] # split_js c xs
      else (case split_js c xs of
              [] \<Rightarrow> [[x]]
            | y # ys \<Rightarrow> (x # y) # ys))"

text \<open>\<^verbatim>\<open>a.join(c)\<close>: the elements with the separator between them.\<close>

fun join_js :: "char \<Rightarrow> string list \<Rightarrow> string" where
  "join_js c [] = []"
| "join_js c [x] = x"
| "join_js c (x # y # ys) = x @ c # join_js c (y # ys)"

text \<open>\<^verbatim>\<open>a.pop()\<close> as an expression: the last element, \<^verbatim>\<open>undefined\<close> on the empty array.\<close>

fun pop_js :: "'a list \<Rightarrow> 'a option" where
  "pop_js [] = None"
| "pop_js [x] = Some x"
| "pop_js (x # y # ys) = pop_js (y # ys)"

text \<open>\<^verbatim>\<open>a.slice(0, -1)\<close>: all elements but the last; the empty array stays empty.\<close>

definition slice_init :: "'a list \<Rightarrow> 'a list" where
  "slice_init xs = take (length xs - 1) xs"

text \<open>
  \<^verbatim>\<open>v || d\<close> where \<^verbatim>\<open>v\<close> is a string or \<^verbatim>\<open>undefined\<close>: the empty string and \<^verbatim>\<open>undefined\<close> are
  falsy.
\<close>

fun or_js :: "string option \<Rightarrow> string \<Rightarrow> string" where
  "or_js None d = d"
| "or_js (Some s) d = (if s = [] then d else s)"

text \<open>
  An object literal with string entries, read by \<^verbatim>\<open>table[key]\<close>. The lookup finds the entry
  of the key; on the name of a property that every object inherits from \<^verbatim>\<open>Object.prototype\<close>
  it finds that property, which is not a string (a function, or the prototype itself for
  \<^verbatim>\<open>__proto__\<close>); on any other key it finds nothing (\<^verbatim>\<open>undefined\<close>).
\<close>

datatype js_value = JString string | JInherited string

definition Object_prototype :: "string list" where
  "Object_prototype =
     [''constructor'', ''__defineGetter__'', ''__defineSetter__'', ''hasOwnProperty'',
      ''__lookupGetter__'', ''__lookupSetter__'', ''isPrototypeOf'', ''propertyIsEnumerable'',
      ''toString'', ''valueOf'', ''__proto__'', ''toLocaleString'']"

definition record_get :: "(string \<times> string) list \<Rightarrow> string \<Rightarrow> js_value option" where
  "record_get table k =
     (case map_of table k of
        Some s \<Rightarrow> Some (JString s)
      | None \<Rightarrow> if k \<in> set Object_prototype then Some (JInherited k) else None)"

text \<open>\<^verbatim>\<open>v || d\<close> for such a value: \<^verbatim>\<open>undefined\<close> and the empty string are falsy, objects are not.\<close>

fun or_value :: "js_value option \<Rightarrow> js_value \<Rightarrow> js_value" where
  "or_value None d = d"
| "or_value (Some (JString s)) d = (if s = [] then d else JString s)"
| "or_value (Some (JInherited k)) d = JInherited k"

text \<open>
  The value where a string is built, in a template or by \<^verbatim>\<open>+\<close>: a string is itself, a built-in
  function prints as native code under its name, and the prototype as any plain object.
\<close>

fun js_text :: "js_value \<Rightarrow> string" where
  "js_text (JString s) = s"
| "js_text (JInherited k) =
     (if k = ''__proto__'' then ''[object Object]''
      else ''function '' @ (if k = ''constructor'' then ''Object'' else k)
           @ ''() { [native code] }'')"

section \<open>Site configuration\<close>

text \<open>
  \<^verbatim>\<open>config.i18n\<close> of \<^verbatim>\<open>site.config.ts\<close>. The resolver and the translator read the configuration
  they are given; \<open>site_config\<close> is the one the repository ships.
\<close>

record config =
  i18n_locales :: "string list"
  i18n_defaultLocale :: string

definition site_config :: config where
  "site_config = \<lparr> i18n_locales = [''en'', ''zh-cn'', ''ja''], i18n_defaultLocale = ''zh-cn'' \<rparr>"

definition monolocale :: "config \<Rightarrow> bool" where
  "monolocale cfg = (length (i18n_locales cfg) = 1)"

section \<open>Locale and path resolver\<close>

definition extractLocaleFromId :: "config \<Rightarrow> string \<Rightarrow> string" where
  "extractLocaleFromId cfg ident = or_js (pop_js (split_js sep ident)) (i18n_defaultLocale cfg)"

definition extractPathFromId :: "config \<Rightarrow> string \<Rightarrow> string" where
  "extractPathFromId cfg ident =
     (if monolocale cfg then ident
      else join_js sep (slice_init (split_js sep ident)))"

definition isContentForLocale :: "config \<Rightarrow> string \<Rightarrow> string \<Rightarrow> bool" where
  "isContentForLocale cfg ident loc =
     (if monolocale cfg then True
      else extractLocaleFromId cfg ident = loc)"

text \<open>The route parameters: \<^verbatim>\<open>{ locale: string | undefined; id: string }\<close>.\<close>

record path_params =
  params_locale :: "string option"
  params_id :: string

definition generatePathParams :: "config \<Rightarrow> string \<Rightarrow> path_params" where
  "generatePathParams cfg ident =
     (if monolocale cfg then \<lparr> params_locale = None, params_id = ident \<rparr>
      else
        (let loc = extractLocaleFromId cfg ident;
             path = extractPathFromId cfg ident
         in \<lparr> params_locale = (if loc = i18n_defaultLocale cfg then None else Some loc),
              params_id = path \<rparr>))"

section \<open>Articles on disk\<close>

text \<open>
  \<^verbatim>\<open>scripts/lib/article-scanner.ts\<close>. A content type names its directory under the content
  directory; an article knows its locales and, per locale, whether the locale is stored as
  \<^verbatim>\<open>locale/index.md\<close> (true) or as \<^verbatim>\<open>locale.md\<close> (false).
\<close>

datatype ContentType = Note | Jotting | Preface

fun contentTypeName :: "ContentType \<Rightarrow> string" where
  "contentTypeName Note = ''note''"
| "contentTypeName Jotting = ''jotting''"
| "contentTypeName Preface = ''preface''"

record Article =
  article_id :: string
  article_type :: ContentType
  locales :: "string set"
  hasSubdirectory :: "string \<rightharpoonup> bool"

text \<open>
  Errors are values. \<open>ArticleFileNotFound\<close> is the error \<^verbatim>\<open>getArticlePath\<close> throws;
  \<open>ApiError\<close> is a rejected call of the translation service, \<open>TypeError\<close> the failed access
  to \<^verbatim>\<open>choices[0].message\<close> of a response without choices, \<open>EmptyTranslationResponse\<close> the
  error \<^verbatim>\<open>translateMarkdown\<close> throws itself, \<open>FrontmatterError\<close> a source file whose
  metadata block does not parse.
\<close>

datatype error =
    ArticleFileNotFound string string
  | ApiError
  | TypeError
  | EmptyTranslationResponse
  | FrontmatterError

text \<open>
  Frontmatter values as the YAML parser hands them over: null, booleans, integers (of the
  size that JavaScript prints in plain decimal), strings and sequences; floating point
  numbers, timestamps and nested mappings are left out. The frontmatter is the mapping
  from keys to values.
\<close>

datatype fm_value = YNull | YBool bool | YNum int | YStr string | YSeq "fm_value list"

type_synonym frontmatter = "string \<rightharpoonup> fm_value"

text \<open>
  A request to the chat completion endpoint: the model and the contents of the system and
  the user message (the temperature is the same constant in every request). The service
  rejects the call, or answers with the message contents of its choices, \<^verbatim>\<open>null\<close> being
  \<open>None\<close>.
\<close>

record request =
  req_model :: string
  req_system :: string
  req_user :: string

datatype api_result = Rejected | Completion "string option list"

text \<open>The console, line by line: what was reported, not how it was worded.\<close>

datatype console_event =
    LogTranslatingTo js_value
  | WarnAlreadyExists string
  | LogSaved string
  | ErrTranslationFailed string error
  | LogTranslatingTitle fm_value
  | LogTranslatingDescription fm_value
  | LogTranslatingContent string
  | ErrTextTranslation fm_value error
  | ErrMarkdownTranslation error

text \<open>
  The world the scripts act on: the directories and the files of the disk, the requests
  sent to the translation service so far, and the console. Failures of the operating system
  (permissions, a full disk, a file in the place of a directory) are outside the model:
  \<^verbatim>\<open>mkdirSync\<close> and \<^verbatim>\<open>writeFileSync\<close> succeed.
\<close>

record world =
  dirs :: "string set"
  files :: "string \<rightharpoonup> string"
  calls :: "request list"
  console :: "console_event list"

text \<open>
  What the scripts take from their environment: the content directory (computed from the
  place of the script), the site configuration, and the frontmatter library, which parses
  a file into its mapping and its body (or throws) and writes a body and a mapping back
  into a file.
\<close>

record env =
  CONTENT_DIR :: string
  site :: config
  matter :: "string \<Rightarrow> error + frontmatter \<times> string"
  matter_stringify :: "string \<Rightarrow> frontmatter \<Rightarrow> string"

text \<open>
  \<^verbatim>\<open>path.join\<close> of Node on a POSIX system. The arguments that are not empty are joined with
  the separator, and the result is normalised segment by segment: empty segments and \<^verbatim>\<open>.\<close>
  are dropped; \<^verbatim>\<open>..\<close> takes away the segment before it, and where there is none (or it is
  \<^verbatim>\<open>..\<close> itself) it stays in a relative path and is dropped in an absolute one. A leading
  and a trailing separator are kept, and the empty path is \<^verbatim>\<open>.\<close>. The segments kept so far
  are held last first.
\<close>

fun normalizeString :: "bool \<Rightarrow> string list \<Rightarrow> string list \<Rightarrow> string list" where
  "normalizeString allowAboveRoot res [] = rev res"
| "normalizeString allowAboveRoot res (s # ss) =
     (if s = [] \<or> s = ''.'' then normalizeString allowAboveRoot res ss
      else if s = ''..''
      then (if res \<noteq> [] \<and> hd res \<noteq> ''..'' then normalizeString allowAboveRoot (tl res) ss
            else if allowAboveRoot then normalizeString allowAboveRoot (''..'' # res) ss
            else normalizeString allowAboveRoot res ss)
      else normalizeString allowAboveRoot (s # res) ss)"

definition normalize :: "string \<Rightarrow> string" where
  "normalize p =
     (if p = [] then ''.''
      else
        (let isAbsolute = (hd p = sep);
             trailingSeparator = (last p = sep);
             q = join_js sep (normalizeString (\<not> isAbsolute) [] (split_js sep p))
         in if q = [] then (if isAbsolute then ''/'' else if trailingSeparator then ''./'' else ''.'')
            else (if isAbsolute then ''/'' else []) @ q @ (if trailingSeparator then ''/'' else [])))"

definition path_join :: "string list \<Rightarrow> string" where
  "path_join paths =
     (let given = filter (\<lambda>p. p \<noteq> []) paths
      in if given = [] then ''.'' else normalize (join_js sep given))"

text \<open>
  A plain path segment is a name that normalisation leaves alone: not empty, without a
  separator, and neither \<^verbatim>\<open>.\<close> nor \<^verbatim>\<open>..\<close>. A plain absolute directory is a separator
  followed by one or more plain segments with separators between them. The names of the
  collections and of the entries of a directory are plain segments, and the content
  directory, the result of \<^verbatim>\<open>path.join\<close> on the absolute directory of the script and a path
  that ends in \<^verbatim>\<open>src/content\<close>, is a plain absolute directory.
\<close>

definition plain_segment :: "string \<Rightarrow> bool" where
  "plain_segment s = (s \<noteq> [] \<and> sep \<notin> set s \<and> s \<noteq> ''.'' \<and> s \<noteq> ''..'')"

definition plain_directory :: "string \<Rightarrow> bool" where
  "plain_directory p =
     (case split_js sep p of
        [] \<Rightarrow> False
      | root # segments \<Rightarrow> root = [] \<and> segments \<noteq> [] \<and> list_all plain_segment segments)"

definition existsSync :: "world \<Rightarrow> string \<Rightarrow> bool" where
  "existsSync w p = (p \<in> dirs w \<or> files w p \<noteq> None)"

text \<open>
  \<^verbatim>\<open>fs.mkdirSync(p, { recursive: true })\<close> makes the directory and the directories above it,
  and leaves those that exist.
\<close>

definition dir_chain :: "string \<Rightarrow> string list" where
  "dir_chain p = filter (\<lambda>q. q \<noteq> []) (map (join_js sep) (tl (prefixes (split_js sep p))))"

definition mkdirSync_recursive :: "string \<Rightarrow> world \<Rightarrow> world" where
  "mkdirSync_recursive p w = w\<lparr> dirs := dirs w \<union> set (dir_chain p) \<rparr>"

definition writeFileSync :: "string \<Rightarrow> string \<Rightarrow> world \<Rightarrow> world" where
  "writeFileSync p content w = w\<lparr> files := (files w)(p \<mapsto> content) \<rparr>"

definition getArticlePath :: "env \<Rightarrow> world \<Rightarrow> Article \<Rightarrow> string \<Rightarrow> error + string" where
  "getArticlePath e w article loc =
     (let baseDir = path_join [CONTENT_DIR e, contentTypeName (article_type article),
                               article_id article]
      in if hasSubdirectory article loc = Some True
         then Inr (path_join [baseDir, loc, ''index.md''])
         else
           (let mdPath = path_join [baseDir, loc @ ''.md''];
                mdxPath = path_join [baseDir, loc @ ''.mdx'']
            in if existsSync w mdPath then Inr mdPath
               else if existsSync w mdxPath then Inr mdxPath
               else Inl (ArticleFileNotFound (article_id article) loc)))"

definition getTargetArticlePath ::
    "env \<Rightarrow> Article \<Rightarrow> string \<Rightarrow> string \<Rightarrow> world \<Rightarrow> string \<times> world" where
  "getTargetArticlePath e article sourceLocale targetLocale w =
     (let baseDir = path_join [CONTENT_DIR e, contentTypeName (article_type article),
                               article_id article]
      in if hasSubdirectory article sourceLocale = Some True
         then
           (let targetDir = path_join [baseDir, targetLocale]
            in (path_join [targetDir, ''index.md''], mkdirSync_recursive targetDir w))
         else (path_join [baseDir, targetLocale @ ''.md''], w))"

definition targetExists :: "Article \<Rightarrow> string \<Rightarrow> bool" where
  "targetExists article targetLocale = (targetLocale \<in> locales article)"

section \<open>Translator\<close>

abbreviation nl :: char where
  "nl \<equiv> CHR 0x0A"

definition name_zh_cn :: string where
  "name_zh_cn =
     [CHR 0xE4, CHR 0xB8, CHR 0xAD, CHR 0xE6, CHR 0x96, CHR 0x87]"

definition name_ja :: string where
  "name_ja =
     [CHR 0xE6, CHR 0x97, CHR 0xA5, CHR 0xE6, CHR 0x9C, CHR 0xAC]
     @ [CHR 0xE8, CHR 0xAA, CHR 0x9E]"

text \<open>
  The tables \<^verbatim>\<open>LANGUAGE_NAMES\<close> and \<^verbatim>\<open>warnings\<close> are object literals used as dictionaries from
  locale codes to strings, read by \<^verbatim>\<open>table[key]\<close>.
\<close>

definition LANGUAGE_NAMES :: "(string \<times> string) list" where
  "LANGUAGE_NAMES = [(''en'', ''English''), (''zh-cn'', name_zh_cn), (''ja'', name_ja)]"

definition getLanguageName :: "string \<Rightarrow> js_value" where
  "getLanguageName loc = or_value (record_get LANGUAGE_NAMES loc) (JString loc)"

definition generateSourceUrl :: "config \<Rightarrow> string \<Rightarrow> string \<Rightarrow> string \<Rightarrow> string" where
  "generateSourceUrl cfg collection articleId sourceLocale =
     (if sourceLocale = i18n_defaultLocale cfg
      then ''/'' @ collection @ ''/'' @ articleId
      else ''/'' @ sourceLocale @ ''/'' @ collection @ ''/'' @ articleId)"

text \<open>The three disclaimer templates, around the name of the source language and the URL.\<close>

definition warning_en :: "string \<Rightarrow> string \<Rightarrow> string" where
  "warning_en languageName sourceUrl =
     ''> [!NOTE]'' @ [nl]
     @ ''> This article is AI-translated from the [''
     @ languageName
     @ '' version](''
     @ sourceUrl
     @ ''). It may contain inaccuracies or hallucinations. Please refer to the ''
     @ ''original version for accuracy.'' @ [nl, nl]"

definition warning_zh_cn :: "string \<Rightarrow> string \<Rightarrow> string" where
  "warning_zh_cn languageName sourceUrl =
     ''> [!NOTE]'' @ [nl]
     @ ''> '' @ [CHR 0xE6, CHR 0xAD, CHR 0xA4, CHR 0xE6, CHR 0x96, CHR 0x87]
     @ [CHR 0xE7, CHR 0xAB, CHR 0xA0, CHR 0xE7, CHR 0x94, CHR 0xB1] @ '' AI ''
     @ [CHR 0xE4, CHR 0xBB, CHR 0x8E] @ '' [''
     @ languageName
     @ [CHR 0xE7, CHR 0x89, CHR 0x88, CHR 0xE6, CHR 0x9C, CHR 0xAC] @ ''](''
     @ sourceUrl
     @ '') '' @ [CHR 0xE8, CHR 0x87, CHR 0xAA, CHR 0xE5, CHR 0x8A, CHR 0xA8]
     @ [CHR 0xE7, CHR 0xBF, CHR 0xBB, CHR 0xE8, CHR 0xAF, CHR 0x91]
     @ [CHR 0xEF, CHR 0xBC, CHR 0x8C, CHR 0xE5, CHR 0x8F, CHR 0xAF]
     @ [CHR 0xE8, CHR 0x83, CHR 0xBD, CHR 0xE5, CHR 0xAD, CHR 0x98]
     @ [CHR 0xE5, CHR 0x9C, CHR 0xA8, CHR 0xE4, CHR 0xB8, CHR 0x8D]
     @ [CHR 0xE5, CHR 0x87, CHR 0x86, CHR 0xE7, CHR 0xA1, CHR 0xAE]
     @ [CHR 0xE4, CHR 0xB9, CHR 0x8B, CHR 0xE5, CHR 0xA4, CHR 0x84]
     @ [CHR 0xE6, CHR 0x88, CHR 0x96, CHR 0xE4, CHR 0xBF, CHR 0xA1]
     @ [CHR 0xE6, CHR 0x81, CHR 0xAF, CHR 0xE5, CHR 0xB9, CHR 0xBB]
     @ [CHR 0xE8, CHR 0xA7, CHR 0x89, CHR 0xE3, CHR 0x80, CHR 0x82]
     @ [CHR 0xE8, CHR 0xAF, CHR 0xB7, CHR 0xE5, CHR 0x8F, CHR 0x82]
     @ [CHR 0xE8, CHR 0x80, CHR 0x83, CHR 0xE5, CHR 0x8E, CHR 0x9F]
     @ [CHR 0xE6, CHR 0x96, CHR 0x87, CHR 0xE4, CHR 0xBB, CHR 0xA5]
     @ [CHR 0xE7, CHR 0xA1, CHR 0xAE, CHR 0xE4, CHR 0xBF, CHR 0x9D]
     @ [CHR 0xE5, CHR 0x87, CHR 0x86, CHR 0xE7, CHR 0xA1, CHR 0xAE]
     @ [CHR 0xE6, CHR 0x80, CHR 0xA7, CHR 0xE3, CHR 0x80, CHR 0x82] @ [nl, nl]"

definition warning_ja :: "string \<Rightarrow> string \<Rightarrow> string" where
  "warning_ja languageName sourceUrl =
     ''> [!NOTE]'' @ [nl]
     @ ''> '' @ [CHR 0xE3, CHR 0x81, CHR 0x93, CHR 0xE3, CHR 0x81, CHR 0xAE]
     @ [CHR 0xE8, CHR 0xA8, CHR 0x98, CHR 0xE4, CHR 0xBA, CHR 0x8B]
     @ [CHR 0xE3, CHR 0x81, CHR 0xAF] @ '' [''
     @ languageName
     @ [CHR 0xE7, CHR 0x89, CHR 0x88] @ ''](''
     @ sourceUrl
     @ '') '' @ [CHR 0xE3, CHR 0x81, CHR 0x8B, CHR 0xE3, CHR 0x82, CHR 0x89] @ '' AI ''
     @ [CHR 0xE7, CHR 0xBF, CHR 0xBB, CHR 0xE8, CHR 0xA8, CHR 0xB3]
     @ [CHR 0xE3, CHR 0x81, CHR 0x95, CHR 0xE3, CHR 0x82, CHR 0x8C]
     @ [CHR 0xE3, CHR 0x81, CHR 0x9F, CHR 0xE3, CHR 0x82, CHR 0x82]
     @ [CHR 0xE3, CHR 0x81, CHR 0xAE, CHR 0xE3, CHR 0x81, CHR 0xA7]
     @ [CHR 0xE3, CHR 0x81, CHR 0x99, CHR 0xE3, CHR 0x80, CHR 0x82]
     @ [CHR 0xE4, CHR 0xB8, CHR 0x8D, CHR 0xE6, CHR 0xAD, CHR 0xA3]
     @ [CHR 0xE7, CHR 0xA2, CHR 0xBA, CHR 0xE3, CHR 0x81, CHR 0xAA]
     @ [CHR 0xE6, CHR 0x83, CHR 0x85, CHR 0xE5, CHR 0xA0, CHR 0xB1]
     @ [CHR 0xE3, CHR 0x82, CHR 0x84, CHR 0xE5, CHR 0xB9, CHR 0xBB]
     @ [CHR 0xE8, CHR 0xA6, CHR 0x9A, CHR 0xE3, CHR 0x81, CHR 0x8C]
     @ [CHR 0xE5, CHR 0x90, CHR 0xAB, CHR 0xE3, CHR 0x81, CHR 0xBE]
     @ [CHR 0xE3, CHR 0x82, CHR 0x8C, CHR 0xE3, CHR 0x82, CHR 0x8B]
     @ [CHR 0xE5, CHR 0x8F, CHR 0xAF, CHR 0xE8, CHR 0x83, CHR 0xBD]
     @ [CHR 0xE6, CHR 0x80, CHR 0xA7, CHR 0xE3, CHR 0x81, CHR 0x8C]
     @ [CHR 0xE3, CHR 0x81, CHR 0x82, CHR 0xE3, CHR 0x82, CHR 0x8A]
     @ [CHR 0xE3, CHR 0x81, CHR 0xBE, CHR 0xE3, CHR 0x81, CHR 0x99]
     @ [CHR 0xE3, CHR 0x80, CHR 0x82, CHR 0xE6, CHR 0xAD, CHR 0xA3]
     @ [CHR 0xE7, CHR 0xA2, CHR 0xBA, CHR 0xE3, CHR 0x81, CHR 0xAA]
     @ [CHR 0xE6, CHR 0x83, CHR 0x85, CHR 0xE5, CHR 0xA0, CHR 0xB1]
     @ [CHR 0xE3, CHR 0x81, CHR 0xAF, CHR 0xE5, CHR 0x8E, CHR 0x9F]
     @ [CHR 0xE6, CHR 0x96, CHR 0x87, CHR 0xE3, CHR 0x82, CHR 0x92]
     @ [CHR 0xE3, CHR 0x81, CHR 0x94, CHR 0xE5, CHR 0x8F, CHR 0x82]
     @ [CHR 0xE7, CHR 0x85, CHR 0xA7, CHR 0xE3, CHR 0x81, CHR 0x8F]
     @ [CHR 0xE3, CHR 0x81, CHR 0xA0, CHR 0xE3, CHR 0x81, CHR 0x95]
     @ [CHR 0xE3, CHR 0x81, CHR 0x84, CHR 0xE3, CHR 0x80, CHR 0x82] @ [nl, nl]"

definition warnings :: "string \<Rightarrow> string \<Rightarrow> (string \<times> string) list" where
  "warnings languageName sourceUrl =
     [(''en'', warning_en languageName sourceUrl),
      (''zh-cn'', warning_zh_cn languageName sourceUrl),
      (''ja'', warning_ja languageName sourceUrl)]"

definition generateWarningBox ::
    "config \<Rightarrow> string \<Rightarrow> string \<Rightarrow> string \<Rightarrow> string \<Rightarrow> js_value" where
  "generateWarningBox cfg collection articleId sourceLocale targetLocale =
     (let sourceUrl = generateSourceUrl cfg collection articleId sourceLocale;
          languageName = js_text (getLanguageName sourceLocale)
      in or_value (record_get (warnings languageName sourceUrl) targetLocale)
                  (JString (warning_en languageName sourceUrl)))"

text \<open>
  \<^verbatim>\<open>String.prototype.trim\<close>: white space and line terminators are removed from both ends.
  The list holds the UTF-8 bytes of each of them.
\<close>

definition js_white_space :: "string list" where
  "js_white_space =
     [[CHR 0x09], [CHR 0x0A], [CHR 0x0B], [CHR 0x0C], [CHR 0x0D], [CHR 0x20],
      [CHR 0xC2, CHR 0xA0], [CHR 0xE1, CHR 0x9A, CHR 0x80],
      [CHR 0xE2, CHR 0x80, CHR 0x80], [CHR 0xE2, CHR 0x80, CHR 0x81],
      [CHR 0xE2, CHR 0x80, CHR 0x82], [CHR 0xE2, CHR 0x80, CHR 0x83],
      [CHR 0xE2, CHR 0x80, CHR 0x84], [CHR 0xE2, CHR 0x80, CHR 0x85],
      [CHR 0xE2, CHR 0x80, CHR 0x86], [CHR 0xE2, CHR 0x80, CHR 0x87],
      [CHR 0xE2, CHR 0x80, CHR 0x88], [CHR 0xE2, CHR 0x80, CHR 0x89],
      [CHR 0xE2, CHR 0x80, CHR 0x8A], [CHR 0xE2, CHR 0x80, CHR 0xA8],
      [CHR 0xE2, CHR 0x80, CHR 0xA9], [CHR 0xE2, CHR 0x80, CHR 0xAF],
      [CHR 0xE2, CHR 0x81, CHR 0x9F], [CHR 0xE3, CHR 0x80, CHR 0x80],
      [CHR 0xEF, CHR 0xBB, CHR 0xBF]]"

function trimStart :: "string \<Rightarrow> string" where
  "trimStart s =
     (case find (\<lambda>ws. ws \<noteq> [] \<and> prefix ws s) js_white_space of
        None \<Rightarrow> s
      | Some ws \<Rightarrow> trimStart (drop (length ws) s))"
  by pat_completeness auto
termination
proof (relation "measure length")
  show "wf (measure length)" by simp
next
  fix s ws
  assume "find (\<lambda>ws. ws \<noteq> [] \<and> prefix ws s) js_white_space = Some ws"
  then have "ws \<noteq> [] \<and> prefix ws s"
    by (auto simp: find_Some_iff)
  then show "(drop (length ws) s, s) \<in> measure length"
    by (auto simp: prefix_def)
qed

function trimEnd :: "string \<Rightarrow> string" where
  "trimEnd s =
     (case find (\<lambda>ws. ws \<noteq> [] \<and> suffix ws s) js_white_space of
        None \<Rightarrow> s
      | Some ws \<Rightarrow> trimEnd (take (length s - length ws) s))"
  by pat_completeness auto
termination
proof (relation "measure length")
  show "wf (measure length)" by simp
next
  fix s ws
  assume "find (\<lambda>ws. ws \<noteq> [] \<and> suffix ws s) js_white_space = Some ws"
  then have "ws \<noteq> [] \<and> suffix ws s"
    by (auto simp: find_Some_iff)
  then show "(take (length s - length ws) s, s) \<in> measure length"
    by (auto simp: suffix_def)
qed

definition js_trim :: "string \<Rightarrow> string" where
  "js_trim s = trimEnd (trimStart s)"

text \<open>Truthiness of a frontmatter value, and its conversion to a string in a template.\<close>

fun truthy :: "fm_value \<Rightarrow> bool" where
  "truthy YNull = False"
| "truthy (YBool b) = b"
| "truthy (YNum i) = (i \<noteq> 0)"
| "truthy (YStr s) = (s \<noteq> [])"
| "truthy (YSeq vs) = True"

fun show_nat :: "nat \<Rightarrow> string" where
  "show_nat n =
     (if n < 10 then [''0123456789'' ! n]
      else show_nat (n div 10) @ [''0123456789'' ! (n mod 10)])"

definition show_int :: "int \<Rightarrow> string" where
  "show_int i = (if i < 0 then ''-'' @ show_nat (nat (- i)) else show_nat (nat i))"

fun js_String :: "fm_value \<Rightarrow> string" where
  "js_String YNull = ''null''"
| "js_String (YBool b) = (if b then ''true'' else ''false'')"
| "js_String (YNum i) = show_int i"
| "js_String (YStr s) = s"
| "js_String (YSeq vs) =
     join_js CHR '','' (map (\<lambda>v. if v = YNull then [] else js_String v) vs)"

text \<open>
  The translator holds the client of the service and the model name. The client answers a
  request given the requests made before it, so the same request may be answered
  differently at different times.
\<close>

record Translator =
  client :: "request list \<Rightarrow> request \<Rightarrow> api_result"
  model :: string

definition textSystemPrompt :: string where
  "textSystemPrompt =
     ''You are a professional translator. Translate accurately and naturally. ''
     @ ''Return only the translated text without any explanation.''"

definition systemPrompt :: string where
  "systemPrompt =
     ''You are a professional technical writer and translator. Your task is to ''
     @ ''translate markdown articles accurately while:'' @ [nl]
     @ ''1. Preserving all markdown formatting (links, code blocks, lists, headings, ''
     @ ''tables, etc.)'' @ [nl]
     @ ''2. Keeping code snippets unchanged'' @ [nl]
     @ ''3. Maintaining technical accuracy'' @ [nl]
     @ ''4. Using natural, fluent language in the target locale'' @ [nl]
     @ ''5. Not translating URLs, file paths, or command-line examples'' @ [nl]
     @ ''6. Preserving special markdown syntax like [!NOTE], [!WARNING], etc.'' @ [nl]
     @ ''7. Return only the translated markdown without any explanation or prefix''"

definition userPrompt :: "string \<Rightarrow> string \<Rightarrow> string \<Rightarrow> string" where
  "userPrompt content sourceLocale targetLocale =
     ''Translate the following markdown article from ''
     @ js_text (getLanguageName sourceLocale)
     @ '' to ''
     @ js_text (getLanguageName targetLocale)
     @ ''.'' @ [nl, nl]
     @ ''Important rules:'' @ [nl]
     @ ''- Keep all markdown syntax intact'' @ [nl]
     @ ''- Do NOT translate code blocks ('' @ [CHR 0x60, CHR 0x60, CHR 0x60]
     @ ''), inline code ('' @ [CHR 0x60] @ ''), URLs, file paths, or technical commands''
     @ [nl]
     @ ''- Translate headings, paragraphs, list items, and table content'' @ [nl]
     @ ''- Maintain the same level of technical detail'' @ [nl]
     @ ''- Use natural expressions in ''
     @ js_text (getLanguageName targetLocale)
     @ [nl]
     @ ''- Preserve line breaks and spacing'' @ [nl, nl]
     @ ''Article to translate:'' @ [nl, nl]
     @ content"

definition textRequest :: "Translator \<Rightarrow> fm_value \<Rightarrow> string \<Rightarrow> request" where
  "textRequest tr text targetLocale =
     \<lparr> req_model = model tr,
       req_system = textSystemPrompt,
       req_user = ''Translate to '' @ js_text (getLanguageName targetLocale) @ '' (''
                  @ targetLocale @ ''): '' @ js_String text \<rparr>"

definition markdownRequest :: "Translator \<Rightarrow> string \<Rightarrow> string \<Rightarrow> string \<Rightarrow> request" where
  "markdownRequest tr content sourceLocale targetLocale =
     \<lparr> req_model = model tr,
       req_system = systemPrompt,
       req_user = userPrompt content sourceLocale targetLocale \<rparr>"

text \<open>\<^verbatim>\<open>await this.client.chat.completions.create(...)\<close>: the answer, and the call on record.\<close>

definition chat_completions_create :: "Translator \<Rightarrow> request \<Rightarrow> world \<Rightarrow> api_result \<times> world" where
  "chat_completions_create tr req w = (client tr (calls w) req, w\<lparr> calls := calls w @ [req] \<rparr>)"

text \<open>\<^verbatim>\<open>response.choices[0].message.content\<close>, which throws where there is no first choice.\<close>

fun first_content :: "api_result \<Rightarrow> error + string option" where
  "first_content Rejected = Inl ApiError"
| "first_content (Completion []) = Inl TypeError"
| "first_content (Completion (c # cs)) = Inr c"

definition translateText :: "Translator \<Rightarrow> fm_value \<Rightarrow> string \<Rightarrow> world \<Rightarrow> fm_value \<times> world" where
  "translateText tr text targetLocale w =
     (let (response, w1) = chat_completions_create tr (textRequest tr text targetLocale) w
      in case first_content response of
           Inl err \<Rightarrow> (text, w1\<lparr> console := console w1 @ [ErrTextTranslation text err] \<rparr>)
         | Inr content \<Rightarrow>
             (case map_option js_trim content of
                None \<Rightarrow> (text, w1)
              | Some t \<Rightarrow> (if t = [] then text else YStr t, w1)))"

definition translateMarkdown ::
    "Translator \<Rightarrow> string \<Rightarrow> string \<Rightarrow> string \<Rightarrow> world \<Rightarrow> (error + string) \<times> world" where
  "translateMarkdown tr content sourceLocale targetLocale w =
     (let (response, w1) =
            chat_completions_create tr (markdownRequest tr content sourceLocale targetLocale) w;
          rethrow = (\<lambda>err. (Inl err, w1\<lparr> console := console w1 @ [ErrMarkdownTranslation err] \<rparr>))
      in case first_content response of
           Inl err \<Rightarrow> rethrow err
         | Inr content \<Rightarrow>
             (case map_option js_trim content of
                None \<Rightarrow> rethrow EmptyTranslationResponse
              | Some translated \<Rightarrow>
                  if translated = [] then rethrow EmptyTranslationResponse
                  else (Inr translated, w1)))"

text \<open>
  One of the two blocks \<^verbatim>\<open>if (data.k) { console.log(...); translatedData.k = await
  this.translateText(data.k, targetLocale); }\<close> of \<^verbatim>\<open>translateArticle\<close>, for the key \<open>k\<close>:
  the field is translated when its value in the parsed frontmatter is truthy.
\<close>

definition translateField ::
    "Translator \<Rightarrow> frontmatter \<Rightarrow> string \<Rightarrow> (fm_value \<Rightarrow> console_event) \<Rightarrow> string
      \<Rightarrow> frontmatter \<times> world \<Rightarrow> frontmatter \<times> world" where
  "translateField tr data k logged targetLocale state =
     (let (translatedData, w) = state
      in case data k of
           None \<Rightarrow> (translatedData, w)
         | Some v \<Rightarrow>
             if truthy v
             then (let w = w\<lparr> console := console w @ [logged v] \<rparr>;
                       (t, w) = translateText tr v targetLocale w
                   in (translatedData(k \<mapsto> t), w))
             else (translatedData, w))"

text \<open>
  The two blocks together (the part of \<^verbatim>\<open>translateArticle\<close> that translates the frontmatter
  fields): \<^verbatim>\<open>translatedData\<close> starts as a copy of the parsed frontmatter.
\<close>

definition translateFields ::
    "Translator \<Rightarrow> frontmatter \<Rightarrow> string \<Rightarrow> world \<Rightarrow> frontmatter \<times> world" where
  "translateFields tr data targetLocale w =
     (let translatedData = data;
          state = translateField tr data ''title'' LogTranslatingTitle targetLocale
                    (translatedData, w);
          state = translateField tr data ''description'' LogTranslatingDescription targetLocale
                    state
      in state)"

text \<open>
  \<^verbatim>\<open>translateArticle\<close> up to its last line: the body and the frontmatter mapping it hands
  to \<^verbatim>\<open>matter.stringify\<close>.
\<close>

definition translateArticle_parts ::
    "env \<Rightarrow> Translator \<Rightarrow> string \<Rightarrow> string \<Rightarrow> string \<Rightarrow> string \<Rightarrow> string \<Rightarrow> world
      \<Rightarrow> (error + string \<times> frontmatter) \<times> world" where
  "translateArticle_parts e tr sourceContent collection articleId sourceLocale targetLocale w =
     (case matter e sourceContent of
        Inl err \<Rightarrow> (Inl err, w)
      | Inr (data, content) \<Rightarrow>
          (let (translatedData, w) = translateFields tr data targetLocale w;
               w = w\<lparr> console := console w @ [LogTranslatingContent content] \<rparr>;
               (translatedContent, w) = translateMarkdown tr content sourceLocale targetLocale w
           in case translatedContent of
                Inl err \<Rightarrow> (Inl err, w)
              | Inr translatedContent \<Rightarrow>
                  (let warningBox = generateWarningBox (site e) collection articleId
                                      sourceLocale targetLocale;
                       finalContent = js_text warningBox @ translatedContent
                   in (Inr (finalContent, translatedData), w))))"

definition translateArticle ::
    "env \<Rightarrow> Translator \<Rightarrow> string \<Rightarrow> string \<Rightarrow> string \<Rightarrow> string \<Rightarrow> string \<Rightarrow> world
      \<Rightarrow> (error + string) \<times> world" where
  "translateArticle e tr sourceContent collection articleId sourceLocale targetLocale w =
     (case translateArticle_parts e tr sourceContent collection articleId sourceLocale
             targetLocale w of
        (Inl err, w') \<Rightarrow> (Inl err, w')
      | (Inr (finalContent, translatedData), w') \<Rightarrow>
          (Inr (matter_stringify e finalContent translatedData), w'))"

section \<open>Translation loop\<close>

text \<open>
  \<^verbatim>\<open>scripts/translate.ts\<close>, from the statistics on: what the prompts and the scan have
  settled before the loop, the tally of the loop, one turn of the loop and the loop.
  An error thrown in a turn is caught at its end; what the turn did before stays done.
\<close>

record job =
  job_collection :: ContentType
  job_articleId :: string
  job_article :: Article
  job_sourceLocale :: string
  job_sourceContent :: string

record stats =
  success :: "string list"
  failed :: "string list"

definition translate_turn ::
    "env \<Rightarrow> Translator \<Rightarrow> job \<Rightarrow> string \<Rightarrow> world \<times> stats \<Rightarrow> world \<times> stats" where
  "translate_turn e tr j targetLocale state =
     (let (w, st) = state;
          targetLang = getLanguageName targetLocale;
          w = w\<lparr> console := console w @ [LogTranslatingTo targetLang] \<rparr>
      in if targetExists (job_article j) targetLocale
         then (w\<lparr> console := console w @ [WarnAlreadyExists targetLocale] \<rparr>, st)
         else
           (case translateArticle e tr (job_sourceContent j) (contentTypeName (job_collection j))
                   (job_articleId j) (job_sourceLocale j) targetLocale w of
              (Inl err, w) \<Rightarrow>
                (w\<lparr> console := console w @ [ErrTranslationFailed targetLocale err] \<rparr>,
                 st\<lparr> failed := failed st @ [targetLocale] \<rparr>)
            | (Inr translatedContent, w) \<Rightarrow>
                (let (targetPath, w) =
                       getTargetArticlePath e (job_article j) (job_sourceLocale j) targetLocale w;
                     w = writeFileSync targetPath translatedContent w;
                     w = w\<lparr> console := console w @ [LogSaved targetPath] \<rparr>
                 in (w, st\<lparr> success := success st @ [targetLocale] \<rparr>))))"

fun translate_loop ::
    "env \<Rightarrow> Translator \<Rightarrow> job \<Rightarrow> string list \<Rightarrow> world \<times> stats \<Rightarrow> world \<times> stats" where
  "translate_loop e tr j [] state = state"
| "translate_loop e tr j (targetLocale # targetLocales) state =
     translate_loop e tr j targetLocales (translate_turn e tr j targetLocale state)"

section \<open>A sample run\<close>

text \<open>
  An article \<^verbatim>\<open>demo\<close> of the notes, written in the default locale as a flat file and present
  in French as a directory; a source file with a title, a description, tags and a draft
  flag; a translation service that translates the title \<^verbatim>\<open>Hello\<close> into English, rejects
  every other short text, answers the Japanese body with a null content and every other
  body with a translation; and a second service, which rejects the first request made to
  it and answers every later one.
\<close>

definition sample_data :: frontmatter where
  "sample_data = [''title'' \<mapsto> YStr ''Hello'', ''description'' \<mapsto> YStr ''A greeting'',
                  ''tags'' \<mapsto> YSeq [YStr ''a'', YStr ''b''], ''draft'' \<mapsto> YBool False]"

definition sample_env :: env where
  "sample_env =
     \<lparr> CONTENT_DIR = ''/blog/src/content'',
       site = site_config,
       matter = (\<lambda>s. if s = [] then Inl FrontmatterError else Inr (sample_data, s)),
       matter_stringify =
         (\<lambda>body data. (case data ''title'' of None \<Rightarrow> [] | Some v \<Rightarrow> js_String v) @ [nl] @ body) \<rparr>"

definition sample_translator :: Translator where
  "sample_translator =
     \<lparr> client =
         (\<lambda>log req.
            if req_user req = ''Translate to English (en): Hello'' then Completion [Some '' Hello! '']
            else if req_system req = textSystemPrompt then Rejected
            else if req_user req = userPrompt ''Hello there'' ''zh-cn'' ''ja'' then Completion [None]
            else Completion [Some ''Translated body'', None]),
       model = ''gpt-4'' \<rparr>"

definition flaky_translator :: Translator where
  "flaky_translator =
     \<lparr> client = (\<lambda>log req. if log = [] then Rejected else Completion [Some ''Translated'']),
       model = ''gpt-4'' \<rparr>"

definition sample_article :: Article where
  "sample_article =
     \<lparr> article_id = ''demo'', article_type = Note, locales = {''zh-cn'', ''fr''},
       hasSubdirectory = [''zh-cn'' \<mapsto> False, ''fr'' \<mapsto> True] \<rparr>"

definition sample_job :: job where
  "sample_job =
     \<lparr> job_collection = Note, job_articleId = ''demo'', job_article = sample_article,
       job_sourceLocale = ''zh-cn'', job_sourceContent = ''Hello there'' \<rparr>"

definition sample_world :: world where
  "sample_world =
     \<lparr> dirs = {''/blog/src/content/note/demo''},
       files = [''/blog/src/content/note/demo/zh-cn.md'' \<mapsto> ''Hello there''],
       calls = [], console = [] \<rparr>"

section \<open>Facts about splitting and joining\<close>

lemma split_js_nonempty: "split_js c s \<noteq> []"
  by (induction s) (auto split: list.splits)

lemma pop_js_last: "xs \<noteq> [] \<Longrightarrow> pop_js xs = Some (last xs)"
  by (induction xs rule: pop_js.induct) auto

lemma slice_init_butlast: "slice_init xs = butlast xs"
  by (simp add: slice_init_def butlast_conv_take)

lemma join_js_Cons: "ys \<noteq> [] \<Longrightarrow> join_js c (x # ys) = x @ c # join_js c ys"
  by (cases ys) auto

lemma join_split_js: "join_js c (split_js c s) = s"
proof (induction s)
  case Nil
  show ?case by simp
next
  case (Cons x xs)
  show ?case
  proof (cases "x = c")
    case True
    with Cons show ?thesis
      by (simp add: join_js_Cons split_js_nonempty)
  next
    case False
    obtain y ys where sp: "split_js c xs = y # ys"
      using split_js_nonempty [of c xs] by (cases "split_js c xs") auto
    with Cons False show ?thesis
      by (cases ys) auto
  qed
qed

lemma join_js_snoc: "xs \<noteq> [] \<Longrightarrow> join_js c (xs @ [z]) = join_js c xs @ c # z"
proof (induction xs rule: join_js.induct)
  case (1 c)
  then show ?case by simp
next
  case (2 c x)
  then show ?case by simp
next
  case (3 c x y ys)
  then show ?case by simp
qed

lemma split_js_no_sep: "c \<notin> set s \<Longrightarrow> split_js c s = [s]"
  by (induction s) auto

lemma split_js_append_sep:
  "split_js c (p @ c # l) = split_js c p @ split_js c l"
proof (induction p)
  case Nil
  show ?case by simp
next
  case (Cons x xs)
  obtain y ys where sp: "split_js c xs = y # ys"
    using split_js_nonempty [of c xs] by (cases "split_js c xs") auto
  with Cons show ?case by (auto split: list.splits)
qed

lemma last_split_js_no_sep: "c \<notin> set (last (split_js c s))"
proof (induction s)
  case Nil
  show ?case by simp
next
  case (Cons x xs)
  obtain y ys where sp: "split_js c xs = y # ys"
    using split_js_nonempty [of c xs] by (cases "split_js c xs") auto
  with Cons show ?case by (cases ys) auto
qed

lemma split_js_snoc:
  "split_js c (s @ [z]) =
     (if z = c then split_js c s @ [[]]
      else butlast (split_js c s) @ [last (split_js c s) @ [z]])"
proof (induction s)
  case Nil
  show ?case by simp
next
  case (Cons x xs)
  obtain y ys where sp: "split_js c xs = y # ys"
    using split_js_nonempty [of c xs] by (cases "split_js c xs") auto
  show ?case
  proof (cases "z = c")
    case True
    with Cons sp show ?thesis by auto
  next
    case False
    with Cons sp show ?thesis by (cases ys) auto
  qed
qed

lemma last_split_js_snoc:
  "last (split_js c (s @ [z])) = (if z = c then [] else last (split_js c s) @ [z])"
  by (simp add: split_js_snoc)

lemma last_segment_empty_iff:
  "last (split_js c s) = [] \<longleftrightarrow> s = [] \<or> (\<exists>p. s = p @ [c])"
proof (cases s rule: rev_cases)
  case Nil
  then show ?thesis by simp
next
  case (snoc p z)
  then show ?thesis by (auto simp: last_split_js_snoc)
qed

lemma join_js_nonempty_elems: "xs \<noteq> [] \<Longrightarrow> \<forall>x\<in>set xs. x \<noteq> [] \<Longrightarrow> join_js c xs \<noteq> []"
  by (induction xs rule: join_js.induct) auto

lemma split_join_js:
  "xs \<noteq> [] \<Longrightarrow> \<forall>x\<in>set xs. c \<notin> set x \<Longrightarrow> split_js c (join_js c xs) = xs"
proof (induction xs rule: join_js.induct)
  case (1 c)
  then show ?case by simp
next
  case (2 c x)
  then show ?case by (simp add: split_js_no_sep)
next
  case (3 c x y ys)
  then show ?case by (simp add: split_js_append_sep split_js_no_sep)
qed

lemma join_js_last_nonempty: "xs \<noteq> [] \<Longrightarrow> last xs \<noteq> [] \<Longrightarrow> join_js c xs \<noteq> []"
  by (induction c xs rule: join_js.induct) auto

lemma last_join_js:
  "xs \<noteq> [] \<Longrightarrow> last xs \<noteq> [] \<Longrightarrow> last (join_js c xs) = last (last xs)"
  by (induction c xs rule: join_js.induct) (auto simp: join_js_last_nonempty)


lemma split_js_pieces: "x \<in> set (split_js c s) \<Longrightarrow> c \<notin> set x"
proof (induction s arbitrary: x)
  case Nil
  then show ?case by simp
next
  case (Cons a s)
  obtain y ys where sp: "split_js c s = y # ys"
    using split_js_nonempty [of c s] by (cases "split_js c s") auto
  with Cons show ?case by (auto split: if_splits)
qed

section \<open>The resolver on every identifier\<close>

lemma extractLocaleFromId_last:
  "extractLocaleFromId cfg ident =
     (if last (split_js sep ident) = [] then i18n_defaultLocale cfg else last (split_js sep ident))"
  by (simp add: extractLocaleFromId_def pop_js_last split_js_nonempty)

lemma join_butlast_last:
  assumes "2 \<le> length xs"
  shows "join_js c (butlast xs) @ c # last xs = join_js c xs"
proof -
  from assms have ne: "butlast xs \<noteq> []" by (cases xs rule: rev_cases) auto
  from assms have "xs = butlast xs @ [last xs]" by (cases xs rule: rev_cases) auto
  then have "join_js c xs = join_js c (butlast xs @ [last xs])" by simp
  also have "\<dots> = join_js c (butlast xs) @ c # last xs"
    using ne by (rule join_js_snoc)
  finally show ?thesis by simp
qed

text \<open>
  Claim C5, amended. In multi-locale mode, for an identifier of at least two segments, the path
  is the identifier without its final segment: the segments before the last, joined by the
  separator, so that path, separator and final segment (which holds no separator) make up
  the identifier again. When the final segment is not the empty string, the locale is the
  final segment, and the route parameters are that path with that locale, the locale being
  absent exactly when the final segment is the default locale.
\<close>

theorem multi_locale_split:
  assumes multi: "\<not> monolocale cfg"
    and segs: "2 \<le> length (split_js sep ident)"
  shows "extractPathFromId cfg ident = join_js sep (butlast (split_js sep ident))
    \<and> extractPathFromId cfg ident @ sep # last (split_js sep ident) = ident
    \<and> sep \<notin> set (last (split_js sep ident))
    \<and> (last (split_js sep ident) \<noteq> [] \<longrightarrow>
          extractLocaleFromId cfg ident = last (split_js sep ident)
        \<and> generatePathParams cfg ident =
            \<lparr> params_locale =
                (if last (split_js sep ident) = i18n_defaultLocale cfg then None
                 else Some (last (split_js sep ident))),
              params_id = extractPathFromId cfg ident \<rparr>)"
proof -
  have path: "extractPathFromId cfg ident = join_js sep (butlast (split_js sep ident))"
    using multi by (simp add: extractPathFromId_def slice_init_butlast)
  have whole: "extractPathFromId cfg ident @ sep # last (split_js sep ident) = ident"
    using segs by (simp add: path join_butlast_last join_split_js)
  have loc: "extractLocaleFromId cfg ident = last (split_js sep ident)"
    if "last (split_js sep ident) \<noteq> []"
    using that by (simp add: extractLocaleFromId_last)
  have params: "generatePathParams cfg ident =
            \<lparr> params_locale =
                (if last (split_js sep ident) = i18n_defaultLocale cfg then None
                 else Some (last (split_js sep ident))),
              params_id = extractPathFromId cfg ident \<rparr>"
    if "last (split_js sep ident) \<noteq> []"
    using that multi by (simp add: generatePathParams_def loc Let_def)
  have final: "sep \<notin> set (last (split_js sep ident))"
    by (rule last_split_js_no_sep)
  from path whole final loc params show ?thesis by blast
qed

text \<open>The shipped configuration on \<^verbatim>\<open>category/my-post/en\<close> and \<^verbatim>\<open>category/my-post/zh-cn\<close>.\<close>

theorem multi_locale_split_witness:
  "\<not> monolocale site_config
   \<and> 2 \<le> length (split_js sep ''category/my-post/en'')
   \<and> extractPathFromId site_config ''category/my-post/en'' = ''category/my-post''
   \<and> extractLocaleFromId site_config ''category/my-post/en'' = ''en''
   \<and> generatePathParams site_config ''category/my-post/en''
       = \<lparr> params_locale = Some ''en'', params_id = ''category/my-post'' \<rparr>
   \<and> generatePathParams site_config ''category/my-post/zh-cn''
       = \<lparr> params_locale = None, params_id = ''category/my-post'' \<rparr>"
proof -
  have m: "\<not> monolocale site_config"
    by (simp add: monolocale_def site_config_def)
  have s1: "split_js sep ''category/my-post/en'' = [''category'', ''my-post'', ''en'']"
    by simp
  have s2: "split_js sep ''category/my-post/zh-cn'' = [''category'', ''my-post'', ''zh-cn'']"
    by simp
  have l1: "2 \<le> length (split_js sep ''category/my-post/en'')" by (simp add: s1)
  have l2: "2 \<le> length (split_js sep ''category/my-post/zh-cn'')" by (simp add: s2)
  have d: "i18n_defaultLocale site_config = ''zh-cn''"
    by (simp add: site_config_def)
  have j: "join_js sep [''category'', ''my-post''] = ''category/my-post''"
    by simp
  show ?thesis
    using multi_locale_split [OF m l1] multi_locale_split [OF m l2] m l1
    by (simp add: s1 s2 d j)
qed

text \<open>
  Claim C5 as stated fails where the final segment is empty: \<^verbatim>\<open>my-post/\<close> has the two segments
  \<^verbatim>\<open>my-post\<close> and the empty string, and the locale is the default locale and not that
  segment; the route parameters carry no locale although the final segment differs from
  the default locale.
\<close>

theorem final_segment_empty_counterexample:
  "\<not> monolocale site_config
   \<and> split_js sep ''my-post/'' = [''my-post'', '''']
   \<and> extractLocaleFromId site_config ''my-post/'' = ''zh-cn''
   \<and> extractLocaleFromId site_config ''my-post/'' \<noteq> last (split_js sep ''my-post/'')
   \<and> params_locale (generatePathParams site_config ''my-post/'') = None
   \<and> last (split_js sep ''my-post/'') \<noteq> i18n_defaultLocale site_config"
  by (simp add: monolocale_def site_config_def extractLocaleFromId_def
      generatePathParams_def Let_def)

text \<open>
  Claim C6. In single-locale mode the route parameters of an identifier are an absent locale
  and the identifier itself, and the path of the identifier is the identifier.
\<close>

theorem single_locale_identity:
  assumes "monolocale cfg"
  shows "generatePathParams cfg ident = \<lparr> params_locale = None, params_id = ident \<rparr>
    \<and> extractPathFromId cfg ident = ident"
  using assms by (simp add: generatePathParams_def extractPathFromId_def)

text \<open>A site with the one locale \<^verbatim>\<open>en\<close>.\<close>

theorem single_locale_identity_witness:
  "monolocale \<lparr> i18n_locales = [''en''], i18n_defaultLocale = ''en'' \<rparr>
   \<and> generatePathParams \<lparr> i18n_locales = [''en''], i18n_defaultLocale = ''en'' \<rparr> ''notes/my-post''
       = \<lparr> params_locale = None, params_id = ''notes/my-post'' \<rparr>
   \<and> extractPathFromId \<lparr> i18n_locales = [''en''], i18n_defaultLocale = ''en'' \<rparr> ''notes/my-post''
       = ''notes/my-post''"
proof -
  have m: "monolocale \<lparr> i18n_locales = [''en''], i18n_defaultLocale = ''en'' \<rparr>"
    by (simp add: monolocale_def)
  show ?thesis
    using single_locale_identity [OF m, of "''notes/my-post''"] m by simp
qed

text \<open>
  Claim C7. No function of the resolver has a failing branch, and none reads an array where it
  has no element: the split of an identifier is never empty, so \<^verbatim>\<open>pop\<close> always yields its
  last segment. Each function is determined on every string and in both modes: the locale
  is the last segment, or the default locale when that segment is empty; on the empty
  identifier the locale is the default locale, the path is empty and the route parameters
  have no locale.
\<close>

theorem resolver_total:
  "split_js sep ident \<noteq> []
   \<and> pop_js (split_js sep ident) = Some (last (split_js sep ident))
   \<and> extractLocaleFromId cfg ident =
       (if last (split_js sep ident) = [] then i18n_defaultLocale cfg
        else last (split_js sep ident))
   \<and> extractPathFromId cfg ident =
       (if monolocale cfg then ident else join_js sep (butlast (split_js sep ident)))
   \<and> isContentForLocale cfg ident loc =
       (monolocale cfg \<or> extractLocaleFromId cfg ident = loc)
   \<and> generatePathParams cfg ident =
       \<lparr> params_locale =
           (if monolocale cfg \<or> extractLocaleFromId cfg ident = i18n_defaultLocale cfg then None
            else Some (extractLocaleFromId cfg ident)),
         params_id = extractPathFromId cfg ident \<rparr>
   \<and> extractLocaleFromId cfg [] = i18n_defaultLocale cfg
   \<and> extractPathFromId cfg [] = []
   \<and> isContentForLocale cfg [] loc = (monolocale cfg \<or> loc = i18n_defaultLocale cfg)
   \<and> generatePathParams cfg [] = \<lparr> params_locale = None, params_id = [] \<rparr>"
proof -
  have loc: "extractLocaleFromId cfg ident =
       (if last (split_js sep ident) = [] then i18n_defaultLocale cfg
        else last (split_js sep ident))"
    by (rule extractLocaleFromId_last)
  have path: "extractPathFromId cfg ident =
       (if monolocale cfg then ident else join_js sep (butlast (split_js sep ident)))"
    by (simp add: extractPathFromId_def slice_init_butlast)
  have belongs: "isContentForLocale cfg ident loc =
       (monolocale cfg \<or> extractLocaleFromId cfg ident = loc)"
    by (simp add: isContentForLocale_def)
  have params: "generatePathParams cfg ident =
       \<lparr> params_locale =
           (if monolocale cfg \<or> extractLocaleFromId cfg ident = i18n_defaultLocale cfg then None
            else Some (extractLocaleFromId cfg ident)),
         params_id = extractPathFromId cfg ident \<rparr>"
    by (simp add: generatePathParams_def extractPathFromId_def Let_def)
  have empty: "extractLocaleFromId cfg [] = i18n_defaultLocale cfg" "extractPathFromId cfg [] = []"
    "isContentForLocale cfg [] loc = (monolocale cfg \<or> loc = i18n_defaultLocale cfg)"
    "generatePathParams cfg [] = \<lparr> params_locale = None, params_id = [] \<rparr>"
    by (auto simp: extractLocaleFromId_def extractPathFromId_def slice_init_def
        isContentForLocale_def generatePathParams_def Let_def)
  show ?thesis
    using loc path belongs params empty
    by (simp only: split_js_nonempty pop_js_last not_False_eq_True simp_thms)
qed

text \<open>
  Claim C10. In multi-locale mode, an identifier whose last segment is empty is the empty
  identifier or ends with the separator; its locale is the default locale, its route
  parameters have no locale, and it counts as content of the default locale.
\<close>

theorem empty_final_segment_default:
  assumes multi: "\<not> monolocale cfg"
    and empty: "last (split_js sep ident) = []"
  shows "(ident = [] \<or> (\<exists>p. ident = p @ [sep]))
    \<and> extractLocaleFromId cfg ident = i18n_defaultLocale cfg
    \<and> generatePathParams cfg ident =
        \<lparr> params_locale = None, params_id = extractPathFromId cfg ident \<rparr>
    \<and> isContentForLocale cfg ident (i18n_defaultLocale cfg)"
proof -
  have shape: "ident = [] \<or> (\<exists>p. ident = p @ [sep])"
    using empty by (simp add: last_segment_empty_iff)
  have loc: "extractLocaleFromId cfg ident = i18n_defaultLocale cfg"
    using empty by (simp add: extractLocaleFromId_last)
  have params: "generatePathParams cfg ident =
        \<lparr> params_locale = None, params_id = extractPathFromId cfg ident \<rparr>"
    using multi by (simp add: generatePathParams_def loc)
  have belongs: "isContentForLocale cfg ident (i18n_defaultLocale cfg)"
    by (simp add: isContentForLocale_def loc)
  from shape loc params belongs show ?thesis by blast
qed

text \<open>The shipped configuration on \<^verbatim>\<open>category/my-post/\<close> and on the empty identifier.\<close>

theorem empty_final_segment_default_witness:
  "\<not> monolocale site_config
   \<and> last (split_js sep ''category/my-post/'') = []
   \<and> extractLocaleFromId site_config ''category/my-post/'' = ''zh-cn''
   \<and> generatePathParams site_config ''category/my-post/''
       = \<lparr> params_locale = None, params_id = ''category/my-post'' \<rparr>
   \<and> extractLocaleFromId site_config [] = ''zh-cn''
   \<and> generatePathParams site_config [] = \<lparr> params_locale = None, params_id = [] \<rparr>"
proof -
  have m: "\<not> monolocale site_config"
    by (simp add: monolocale_def site_config_def)
  have e1: "last (split_js sep ''category/my-post/'') = []" by simp
  have e2: "last (split_js sep []) = []" by simp
  have p1: "extractPathFromId site_config ''category/my-post/'' = ''category/my-post''"
    using m by (simp add: extractPathFromId_def slice_init_def)
  have p2: "extractPathFromId site_config [] = []"
    using m by (simp add: extractPathFromId_def slice_init_def)
  have d: "i18n_defaultLocale site_config = ''zh-cn''"
    by (simp add: site_config_def)
  show ?thesis
    using empty_final_segment_default [OF m e1] empty_final_segment_default [OF m e2] m e1
    by (simp add: p1 p2 d)
qed

section \<open>The path of a new locale\<close>

text \<open>
  A plain absolute directory is left alone by normalisation, so joining it with plain
  segments is concatenation with the separator.
\<close>

lemma normalizeString_plain:
  "list_all plain_segment ss \<Longrightarrow> normalizeString b res ss = rev res @ ss"
  by (induction ss arbitrary: res) (auto simp: plain_segment_def)

lemma plain_directoryE:
  assumes "plain_directory p"
  obtains segments where "segments \<noteq> []" "list_all plain_segment segments"
    "p = sep # join_js sep segments"
proof -
  from assms obtain segments where sp: "split_js sep p = [] # segments" and ne: "segments \<noteq> []"
    and pl: "list_all plain_segment segments"
    by (auto simp: plain_directory_def split: list.splits)
  have "p = join_js sep ([] # segments)"
    using join_split_js [of sep p] sp by simp
  with ne have "p = sep # join_js sep segments"
    by (simp add: join_js_Cons)
  with ne pl show ?thesis by (rule that)
qed

lemma plain_directoryI:
  assumes "segments \<noteq> []" "list_all plain_segment segments"
  shows "plain_directory (sep # join_js sep segments)"
proof -
  have nosep: "\<forall>x\<in>set ([] # segments). sep \<notin> set x"
    using assms(2) by (auto simp: list_all_iff plain_segment_def)
  have "sep # join_js sep segments = join_js sep ([] # segments)"
    using assms(1) by (simp add: join_js_Cons)
  then have "split_js sep (sep # join_js sep segments) = [] # segments"
    using split_join_js [OF _ nosep] by simp
  with assms show ?thesis
    by (simp add: plain_directory_def)
qed

lemma normalize_plain_directory:
  assumes "plain_directory p"
  shows "normalize p = p"
proof -
  from assms obtain segments where ne: "segments \<noteq> []" and pl: "list_all plain_segment segments"
    and p: "p = sep # join_js sep segments"
    by (rule plain_directoryE)
  have nosep: "\<forall>x\<in>set ([] # segments). sep \<notin> set x"
    using pl by (auto simp: list_all_iff plain_segment_def)
  have p': "p = join_js sep ([] # segments)"
    using ne p by (simp add: join_js_Cons)
  have sp: "split_js sep p = [] # segments"
    unfolding p' using split_join_js [OF _ nosep] by simp
  have lastseg: "plain_segment (last segments)"
    using ne pl by (simp add: list_all_iff)
  then have lne: "last segments \<noteq> []" and lsep: "sep \<notin> set (last segments)"
    by (simp_all add: plain_segment_def)
  have "last (join_js sep segments) = last (last segments)"
    using ne lne by (rule last_join_js)
  moreover have "last (last segments) \<in> set (last segments)"
    using lne by simp
  ultimately have l: "last (join_js sep segments) \<noteq> sep"
    using lsep by metis
  have jne: "join_js sep segments \<noteq> []"
    using ne pl by (intro join_js_nonempty_elems) (auto simp: list_all_iff plain_segment_def)
  have tr: "last p \<noteq> sep"
    using l jne by (simp add: p)
  have ns: "normalizeString False [] segments = segments"
    using normalizeString_plain [OF pl, of False "[]"] by simp
  show ?thesis
    using tr jne by (simp add: normalize_def sp ns Let_def) (simp add: p)
qed

lemma plain_directory_append:
  assumes "plain_directory d" "plain_segment s"
  shows "plain_directory (d @ ''/'' @ s)"
proof -
  from assms(1) obtain segments where ne: "segments \<noteq> []" and pl: "list_all plain_segment segments"
    and d: "d = sep # join_js sep segments"
    by (rule plain_directoryE)
  have "d @ ''/'' @ s = sep # join_js sep (segments @ [s])"
    using ne by (simp add: d join_js_snoc)
  moreover have "plain_directory (sep # join_js sep (segments @ [s]))"
    using pl assms(2) by (intro plain_directoryI) simp_all
  ultimately show ?thesis by simp
qed

lemma path_join_2:
  assumes "plain_directory d" "plain_segment s"
  shows "path_join [d, s] = d @ ''/'' @ s"
proof -
  have ne: "d \<noteq> []" "s \<noteq> []"
    using assms by (auto simp: plain_directory_def plain_segment_def)
  have "normalize (d @ ''/'' @ s) = d @ ''/'' @ s"
    using assms by (intro normalize_plain_directory plain_directory_append)
  with ne show ?thesis
    by (simp add: path_join_def)
qed

lemma path_join_3:
  assumes "plain_directory d" "plain_segment s" "plain_segment t"
  shows "path_join [d, s, t] = d @ ''/'' @ s @ ''/'' @ t"
proof -
  have ne: "d \<noteq> []" "s \<noteq> []" "t \<noteq> []"
    using assms by (auto simp: plain_directory_def plain_segment_def)
  have "plain_directory ((d @ ''/'' @ s) @ ''/'' @ t)"
    using assms by (intro plain_directory_append)
  then have "normalize (d @ ''/'' @ s @ ''/'' @ t) = d @ ''/'' @ s @ ''/'' @ t"
    using normalize_plain_directory by fastforce
  with ne show ?thesis
    by (simp add: path_join_def)
qed

lemma plain_segment_ext: "plain_segment s \<Longrightarrow> plain_segment (s @ ''.md'')"
  by (cases s) (auto simp: plain_segment_def)

lemma plain_segment_names: "plain_segment (contentTypeName c)" "plain_segment ''index.md''"
  by (cases c) (simp_all add: plain_segment_def)

lemma normalizeString_append:
  "normalizeString False res (xs @ ys)
     = normalizeString False (rev (normalizeString False res xs)) ys"
  by (induction xs arbitrary: res) simp_all

lemma normalizeString_keeps_plain:
  "list_all plain_segment res \<Longrightarrow> \<forall>x\<in>set xs. sep \<notin> set x \<Longrightarrow>
     list_all plain_segment (normalizeString False res xs)"
proof (induction xs arbitrary: res)
  case Nil
  then show ?case by (simp add: list_all_iff)
next
  case (Cons x xs)
  have tl: "list_all plain_segment (tl res)"
    using Cons.prems(1) by (cases res) simp_all
  have push: "list_all plain_segment (x # res)" if "x \<noteq> []" "x \<noteq> ''.''" "x \<noteq> ''..''"
  proof -
    have "plain_segment x"
      using that Cons.prems(2) by (simp add: plain_segment_def)
    with Cons.prems(1) show ?thesis by simp
  qed
  from Cons.prems(2) have rest: "\<forall>x\<in>set xs. sep \<notin> set x" by simp
  show ?case
    using Cons.IH [OF tl rest] Cons.IH [OF Cons.prems(1) rest] Cons.IH [OF _ rest, of "x # res"] push
    by simp
qed

text \<open>
  The content directory, \<^verbatim>\<open>path.join(__dirname, "../../src/content")\<close>, is a plain absolute
  directory whatever absolute directory the script is in.
\<close>

lemma content_dir_plain:
  assumes "dirname \<noteq> []" "hd dirname = sep"
  shows "plain_directory (path_join [dirname, ''../../src/content''])"
proof -
  define p where "p = dirname @ ''/'' @ ''../../src/content''"
  let ?r = "rev (normalizeString False [] (split_js sep dirname))"
  have r: "list_all plain_segment ?r"
    using normalizeString_keeps_plain [of "[]" "split_js sep dirname"] split_js_pieces
    by (auto simp: list_all_iff)
  have sp: "split_js sep p = split_js sep dirname @ [''..'', ''..'', ''src'', ''content'']"
    by (simp add: p_def split_js_append_sep)
  have ends: "p \<noteq> []" "hd p = sep" "last p \<noteq> sep"
    using assms by (simp_all add: p_def)
  obtain res where res: "list_all plain_segment res"
    and up: "normalizeString False ?r [''..'', ''..'', ''src'', ''content'']
      = rev res @ [''src'', ''content'']"
  proof -
    have t1: "list_all plain_segment (tl ?r)" using r by (cases ?r) simp_all
    then have t2: "list_all plain_segment (tl (tl ?r))" by (cases "tl ?r") simp_all
    have nd: "hd xs \<noteq> ''..''" if "list_all plain_segment xs" "xs \<noteq> []" for xs
      using that by (cases xs) (auto simp: plain_segment_def)
    show ?thesis
    proof (cases "?r = []")
      case True
      then show ?thesis using that [of "[]"] by simp
    next
      case False
      show ?thesis
      proof (cases "tl ?r = []")
        case True
        with False nd [OF r] show ?thesis using that [of "[]"] by simp
      next
        case False2: False
        with False nd [OF r] nd [OF t1] t2 show ?thesis using that [of "tl (tl ?r)"] by simp
      qed
    qed
  qed
  have segs: "normalizeString False [] (split_js sep p) = rev res @ [''src'', ''content'']"
    unfolding sp normalizeString_append up ..
  have plain: "list_all plain_segment (rev res @ [''src'', ''content''])"
    using res by (simp add: plain_segment_def)
  have dir: "plain_directory (sep # join_js sep (rev res @ [''src'', ''content'']))"
    using plain by (intro plain_directoryI) simp_all
  have ne: "join_js sep (rev res @ [''src'', ''content'']) \<noteq> []"
    by (rule join_js_last_nonempty) simp_all
  have "normalize p = sep # join_js sep (rev res @ [''src'', ''content''])"
    using ends ne by (simp add: normalize_def segs Let_def)
  moreover have "path_join [dirname, ''../../src/content''] = normalize p"
    using assms(1) by (simp add: path_join_def p_def)
  ultimately show ?thesis
    using dir by simp
qed



lemma article_baseDir:
  assumes "plain_directory (CONTENT_DIR e)" "plain_segment (article_id a)"
  shows "path_join [CONTENT_DIR e, contentTypeName (article_type a), article_id a]
           = CONTENT_DIR e @ ''/'' @ contentTypeName (article_type a) @ ''/'' @ article_id a"
    and "plain_directory
           (CONTENT_DIR e @ ''/'' @ contentTypeName (article_type a) @ ''/'' @ article_id a)"
proof -
  show "path_join [CONTENT_DIR e, contentTypeName (article_type a), article_id a]
           = CONTENT_DIR e @ ''/'' @ contentTypeName (article_type a) @ ''/'' @ article_id a"
    using assms by (intro path_join_3 plain_segment_names)
  have "plain_directory
      ((CONTENT_DIR e @ ''/'' @ contentTypeName (article_type a)) @ ''/'' @ article_id a)"
    using assms by (intro plain_directory_append plain_segment_names)
  then show "plain_directory
      (CONTENT_DIR e @ ''/'' @ contentTypeName (article_type a) @ ''/'' @ article_id a)"
    by simp
qed

lemma getTargetArticlePath_fst:
  assumes "plain_directory (CONTENT_DIR e)" "plain_segment (article_id a)" "plain_segment t"
  shows "fst (getTargetArticlePath e a sl t w) =
     (let baseDir = CONTENT_DIR e @ ''/'' @ contentTypeName (article_type a) @ ''/'' @ article_id a
      in if hasSubdirectory a sl = Some True then baseDir @ ''/'' @ t @ ''/index.md''
         else baseDir @ ''/'' @ t @ ''.md'')"
proof -
  define b where "b = CONTENT_DIR e @ ''/'' @ contentTypeName (article_type a) @ ''/'' @ article_id a"
  have base: "path_join [CONTENT_DIR e, contentTypeName (article_type a), article_id a] = b"
    "plain_directory b"
    unfolding b_def using assms(1,2) by (rule article_baseDir)+
  have dir: "path_join [b, t] = b @ ''/'' @ t" "plain_directory (b @ ''/'' @ t)"
    using base(2) assms(3) by (simp_all only: path_join_2 plain_directory_append)
  have index: "path_join [b @ ''/'' @ t, ''index.md''] = (b @ ''/'' @ t) @ ''/'' @ ''index.md''"
    using dir(2) by (intro path_join_2 plain_segment_names)
  have flat: "path_join [b, t @ ''.md''] = b @ ''/'' @ t @ ''.md''"
    using base(2) assms(3) by (intro path_join_2 plain_segment_ext)
  show ?thesis
    unfolding Let_def b_def [symmetric]
    by (simp add: getTargetArticlePath_def base(1) dir(1) index [simplified] flat Let_def)
qed

lemma getTargetArticlePath_inj:
  assumes "plain_directory (CONTENT_DIR e)" "plain_segment (article_id a)"
    "plain_segment t" "plain_segment t'"
    "fst (getTargetArticlePath e a sl t w) = fst (getTargetArticlePath e a sl t' w')"
  shows "t = t'"
  using assms(5)
  by (simp add: getTargetArticlePath_fst [OF assms(1,2,3)] getTargetArticlePath_fst [OF assms(1,2,4)]
      Let_def split: if_splits)

lemma getTargetArticlePath_anywhere:
  "fst (getTargetArticlePath e a sl t w) = fst (getTargetArticlePath e a sl t w')"
  by (simp add: getTargetArticlePath_def Let_def)

lemma getTargetArticlePath_world:
  "files (snd (getTargetArticlePath e a sl t w)) = files w
   \<and> dirs w \<subseteq> dirs (snd (getTargetArticlePath e a sl t w))
   \<and> calls (snd (getTargetArticlePath e a sl t w)) = calls w"
  by (auto simp: getTargetArticlePath_def mkdirSync_recursive_def Let_def)




section \<open>The translator\<close>




lemma record_get_own: "k \<notin> set Object_prototype \<Longrightarrow> record_get table k = map_option JString (map_of table k)"
  by (simp add: record_get_def split: option.split)

lemma getLanguageName_cases:
  "locale \<notin> set Object_prototype \<Longrightarrow>
     getLanguageName locale =
       JString (if locale = ''en'' then ''English'' else if locale = ''zh-cn'' then name_zh_cn
                else if locale = ''ja'' then name_ja else locale)"
  by (simp add: getLanguageName_def record_get_own LANGUAGE_NAMES_def name_zh_cn_def name_ja_def)



lemma translateText_cases:
  "translateText tr text targetLocale w =
     (let req = textRequest tr text targetLocale;
          w1 = w\<lparr> calls := calls w @ [req] \<rparr>
      in case client tr (calls w) req of
           Rejected \<Rightarrow> (text, w1\<lparr> console := console w @ [ErrTextTranslation text ApiError] \<rparr>)
         | Completion [] \<Rightarrow> (text, w1\<lparr> console := console w @ [ErrTextTranslation text TypeError] \<rparr>)
         | Completion (None # cs) \<Rightarrow> (text, w1)
         | Completion (Some c # cs) \<Rightarrow> (if js_trim c = [] then text else YStr (js_trim c), w1))"
  by (simp add: translateText_def chat_completions_create_def Let_def
      split: api_result.split list.split option.split)

lemma translateMarkdown_cases:
  "translateMarkdown tr content sourceLocale targetLocale w =
     (let req = markdownRequest tr content sourceLocale targetLocale;
          w1 = w\<lparr> calls := calls w @ [req] \<rparr>;
          thrown = (\<lambda>err. (Inl err, w1\<lparr> console := console w @ [ErrMarkdownTranslation err] \<rparr>))
      in case client tr (calls w) req of
           Rejected \<Rightarrow> thrown ApiError
         | Completion [] \<Rightarrow> thrown TypeError
         | Completion (None # cs) \<Rightarrow> thrown EmptyTranslationResponse
         | Completion (Some c # cs) \<Rightarrow>
             if js_trim c = [] then thrown EmptyTranslationResponse else (Inr (js_trim c), w1))"
  by (simp add: translateMarkdown_def chat_completions_create_def Let_def
      split: api_result.split list.split option.split)

text \<open>
  The service has no translation for a request when its answer has no first content that
  trims to a non-empty string: the call is rejected, the response has no choice, or the
  content of the first choice is null or blank.
\<close>

lemma no_translation_iff:
  "(\<forall>c. first_content r = Inr (Some c) \<longrightarrow> js_trim c = []) \<longleftrightarrow>
     r = Rejected \<or> r = Completion [] \<or> (\<exists>cs. r = Completion (None # cs))
     \<or> (\<exists>c cs. r = Completion (Some c # cs) \<and> js_trim c = [])"
proof (cases r)
  case Rejected
  then show ?thesis by simp
next
  case (Completion cs)
  show ?thesis
  proof (cases cs)
    case Nil
    with Completion show ?thesis by simp
  next
    case (Cons c cs')
    with Completion show ?thesis by (cases c) auto
  qed
qed

lemma translateText_fallback:
  assumes "\<And>c. first_content (client tr (calls w) (textRequest tr text targetLocale)) = Inr (Some c)
             \<Longrightarrow> js_trim c = []"
  shows "fst (translateText tr text targetLocale w) = text"
  using assms
  by (auto simp: translateText_def chat_completions_create_def Let_def
      split: sum.split option.split)

lemma translateText_result:
  "fst (translateText tr text targetLocale w) = text
   \<or> (\<exists>c. first_content (client tr (calls w) (textRequest tr text targetLocale)) = Inr (Some c)
          \<and> js_trim c \<noteq> [] \<and> fst (translateText tr text targetLocale w) = YStr (js_trim c))"
  by (auto simp: translateText_def chat_completions_create_def Let_def
      split: sum.split option.split)

lemma translateText_world:
  "\<exists>evs. snd (translateText tr text targetLocale w) =
      w\<lparr> calls := calls w @ [textRequest tr text targetLocale], console := console w @ evs \<rparr>"
  by (auto simp: translateText_def chat_completions_create_def Let_def
      split: sum.split option.split intro: exI [of _ "[]"])

lemma translateMarkdown_world:
  "\<exists>evs. snd (translateMarkdown tr content sourceLocale targetLocale w) =
      w\<lparr> calls := calls w @ [markdownRequest tr content sourceLocale targetLocale],
         console := console w @ evs \<rparr>"
  by (auto simp: translateMarkdown_def chat_completions_create_def Let_def
      split: sum.split option.split intro: exI [of _ "[]"])

lemma translateMarkdown_throws:
  assumes "\<And>c. first_content (client tr (calls w) (markdownRequest tr content sourceLocale targetLocale))
               = Inr (Some c) \<Longrightarrow> js_trim c = []"
  shows "\<exists>err. fst (translateMarkdown tr content sourceLocale targetLocale w) = Inl err"
  using assms
  by (auto simp: translateMarkdown_def chat_completions_create_def Let_def
      split: sum.split option.split)

lemma translateMarkdown_returns:
  assumes "first_content (client tr (calls w) (markdownRequest tr content sourceLocale targetLocale))
               = Inr (Some c)" and "js_trim c \<noteq> []"
  shows "fst (translateMarkdown tr content sourceLocale targetLocale w) = Inr (js_trim c)"
  using assms
  by (auto simp: translateMarkdown_def chat_completions_create_def Let_def
      split: sum.split option.split)


lemma translateField_other_keys:
  "k' \<noteq> k \<Longrightarrow> fst (translateField tr data k logged targetLocale state) k' = fst state k'"
  by (simp add: translateField_def Let_def case_prod_beta split: option.split)

lemma translateField_dom:
  "fst state k = data k \<Longrightarrow>
     dom (fst (translateField tr data k logged targetLocale state)) = dom (fst state)"
  by (auto simp: translateField_def Let_def case_prod_beta split: option.splits if_splits)

lemma translateField_disk:
  "dirs (snd (translateField tr data k logged targetLocale state)) = dirs (snd state)
   \<and> files (snd (translateField tr data k logged targetLocale state)) = files (snd state)"
proof (cases "\<exists>v. data k = Some v \<and> truthy v")
  case True
  then obtain v where v: "data k = Some v" "truthy v" by blast
  let ?w = "(snd state)\<lparr> console := console (snd state) @ [logged v] \<rparr>"
  obtain evs where "snd (translateText tr v targetLocale ?w) =
      ?w\<lparr> calls := calls ?w @ [textRequest tr v targetLocale], console := console ?w @ evs \<rparr>"
    using translateText_world by blast
  then show ?thesis
    using v by (simp add: translateField_def Let_def case_prod_beta)
next
  case False
  then have "snd (translateField tr data k logged targetLocale state) = snd state"
    by (auto simp: translateField_def Let_def case_prod_beta split: option.split)
  then show ?thesis by simp
qed

lemma translateFields_other_keys:
  "k \<noteq> ''title'' \<Longrightarrow> k \<noteq> ''description'' \<Longrightarrow>
     fst (translateFields tr data targetLocale w) k = data k"
  by (simp add: translateFields_def translateField_other_keys)

lemma translateFields_dom: "dom (fst (translateFields tr data targetLocale w)) = dom data"
proof -
  let ?s1 = "translateField tr data ''title'' LogTranslatingTitle targetLocale (data, w)"
  have "fst ?s1 ''description'' = data ''description''"
    by (simp add: translateField_other_keys)
  then have "dom (fst (translateField tr data ''description'' LogTranslatingDescription
      targetLocale ?s1)) = dom (fst ?s1)"
    by (rule translateField_dom)
  moreover have "dom (fst ?s1) = dom (fst (data, w))"
    by (rule translateField_dom) simp
  ultimately show ?thesis
    by (simp add: translateFields_def)
qed

lemma translateFields_disk:
  "dirs (snd (translateFields tr data targetLocale w)) = dirs w
   \<and> files (snd (translateFields tr data targetLocale w)) = files w"
  by (simp add: translateFields_def translateField_disk)

text \<open>The world in which the body is translated.\<close>

lemma translateArticle_parts_parsed:
  assumes parse: "matter e sourceContent = Inr (data, content)"
  shows "translateArticle_parts e tr sourceContent collection articleId sourceLocale targetLocale w =
      (let w1 = snd (translateFields tr data targetLocale w);
           w2 = w1\<lparr> console := console w1 @ [LogTranslatingContent content] \<rparr>;
           r = translateMarkdown tr content sourceLocale targetLocale w2
       in (case fst r of
             Inl err \<Rightarrow> Inl err
           | Inr body \<Rightarrow>
               Inr (js_text (generateWarningBox (site e) collection articleId sourceLocale
                           targetLocale)
                      @ body, fst (translateFields tr data targetLocale w)),
           snd r))"
  by (simp add: translateArticle_parts_def parse Let_def case_prod_beta split: sum.split)

lemma translateArticle_parsed:
  assumes parse: "matter e sourceContent = Inr (data, content)"
  shows "translateArticle e tr sourceContent collection articleId sourceLocale targetLocale w =
      (let w1 = snd (translateFields tr data targetLocale w);
           w2 = w1\<lparr> console := console w1 @ [LogTranslatingContent content] \<rparr>;
           r = translateMarkdown tr content sourceLocale targetLocale w2
       in (case fst r of
             Inl err \<Rightarrow> Inl err
           | Inr body \<Rightarrow>
               Inr (matter_stringify e
                      (js_text (generateWarningBox (site e) collection articleId sourceLocale
                           targetLocale)
                         @ body)
                      (fst (translateFields tr data targetLocale w))),
           snd r))"
  by (simp add: translateArticle_def translateArticle_parts_parsed [OF parse] Let_def
      split: sum.split)

lemma translateArticle_disk:
  "dirs (snd (translateArticle e tr sourceContent collection articleId sourceLocale targetLocale w))
     = dirs w
   \<and> files (snd (translateArticle e tr sourceContent collection articleId sourceLocale targetLocale w))
     = files w"
proof (cases "matter e sourceContent")
  case (Inl err)
  then show ?thesis
    by (simp add: translateArticle_def translateArticle_parts_def)
next
  case (Inr parsed)
  obtain data content where parsed: "parsed = (data, content)" by (cases parsed)
  let ?w1 = "snd (translateFields tr data targetLocale w)"
  let ?w2 = "?w1\<lparr> console := console ?w1 @ [LogTranslatingContent content] \<rparr>"
  obtain evs' where md: "snd (translateMarkdown tr content sourceLocale targetLocale ?w2) =
      ?w2\<lparr> calls := calls ?w2 @ [markdownRequest tr content sourceLocale targetLocale],
         console := console ?w2 @ evs' \<rparr>"
    using translateMarkdown_world by blast
  have "snd (translateArticle e tr sourceContent collection articleId sourceLocale targetLocale w)
      = snd (translateMarkdown tr content sourceLocale targetLocale ?w2)"
    using Inr parsed by (simp add: translateArticle_parsed Let_def)
  then show ?thesis
    by (simp add: md translateFields_disk)
qed

lemma translateArticle_body_fails_now:
  assumes parse: "matter e sourceContent = Inr (data, content)"
    and fails: "\<And>c. first_content (client tr (calls (snd (translateFields tr data targetLocale w)))
                  (markdownRequest tr content sourceLocale targetLocale)) = Inr (Some c)
                \<Longrightarrow> js_trim c = []"
  shows "\<exists>err. fst (translateArticle e tr sourceContent collection articleId sourceLocale
                    targetLocale w) = Inl err"
proof -
  let ?w1 = "snd (translateFields tr data targetLocale w)"
  let ?w2 = "?w1\<lparr> console := console ?w1 @ [LogTranslatingContent content] \<rparr>"
  have "calls ?w2 = calls ?w1" by simp
  with fails have "first_content (client tr (calls ?w2)
      (markdownRequest tr content sourceLocale targetLocale)) = Inr (Some c) \<Longrightarrow> js_trim c = []"
    for c
    by simp
  then obtain err where
      "fst (translateMarkdown tr content sourceLocale targetLocale ?w2) = Inl err"
    using translateMarkdown_throws [of tr ?w2 content sourceLocale targetLocale] by blast
  then have "fst (translateArticle e tr sourceContent collection articleId sourceLocale
                    targetLocale w) = Inl err"
    by (simp add: translateArticle_parsed [OF parse] Let_def)
  then show ?thesis by blast
qed

lemma translateArticle_body_fails:
  assumes parse: "matter e sourceContent = Inr (data, content)"
    and fails: "\<And>log c. first_content (client tr log
                  (markdownRequest tr content sourceLocale targetLocale)) = Inr (Some c)
                \<Longrightarrow> js_trim c = []"
  shows "\<exists>err. fst (translateArticle e tr sourceContent collection articleId sourceLocale
                    targetLocale w) = Inl err"
  using parse by (rule translateArticle_body_fails_now) (rule fails)

lemma translateArticle_body_ok:
  assumes parse: "matter e sourceContent = Inr (data, content)"
    and ok: "\<And>log. \<exists>c. first_content (client tr log
                  (markdownRequest tr content sourceLocale targetLocale)) = Inr (Some c)
                \<and> js_trim c \<noteq> []"
  shows "\<exists>body. body \<noteq> []
      \<and> fst (translateArticle e tr sourceContent collection articleId sourceLocale targetLocale w)
          = Inr (matter_stringify e
                   (js_text (generateWarningBox (site e) collection articleId sourceLocale
                           targetLocale)
                      @ body)
                   (fst (translateFields tr data targetLocale w)))"
proof -
  let ?w1 = "snd (translateFields tr data targetLocale w)"
  let ?w2 = "?w1\<lparr> console := console ?w1 @ [LogTranslatingContent content] \<rparr>"
  obtain c where c: "first_content (client tr (calls ?w2)
       (markdownRequest tr content sourceLocale targetLocale)) = Inr (Some c)" "js_trim c \<noteq> []"
    using ok by blast
  have "fst (translateMarkdown tr content sourceLocale targetLocale ?w2) = Inr (js_trim c)"
    using c by (rule translateMarkdown_returns)
  then have "fst (translateArticle e tr sourceContent collection articleId sourceLocale targetLocale w)
          = Inr (matter_stringify e
                   (js_text (generateWarningBox (site e) collection articleId sourceLocale
                           targetLocale)
                      @ js_trim c)
                   (fst (translateFields tr data targetLocale w)))"
    by (simp add: translateArticle_parsed [OF parse] Let_def)
  with c(2) show ?thesis by blast
qed

lemma translateArticle_parts_body_ok:
  assumes parse: "matter e sourceContent = Inr (data, content)"
    and ok: "\<And>log. \<exists>c. first_content (client tr log
                  (markdownRequest tr content sourceLocale targetLocale)) = Inr (Some c)
                \<and> js_trim c \<noteq> []"
  shows "\<exists>body w'. body \<noteq> []
      \<and> translateArticle_parts e tr sourceContent collection articleId sourceLocale targetLocale w
          = (Inr (js_text (generateWarningBox (site e) collection articleId sourceLocale
                           targetLocale) @ body,
                  fst (translateFields tr data targetLocale w)), w')"
proof -
  let ?w1 = "snd (translateFields tr data targetLocale w)"
  let ?w2 = "?w1\<lparr> console := console ?w1 @ [LogTranslatingContent content] \<rparr>"
  let ?r = "translateMarkdown tr content sourceLocale targetLocale ?w2"
  obtain c where c: "first_content (client tr (calls ?w2)
       (markdownRequest tr content sourceLocale targetLocale)) = Inr (Some c)" "js_trim c \<noteq> []"
    using ok by blast
  have "fst ?r = Inr (js_trim c)"
    using c by (rule translateMarkdown_returns)
  then have "translateArticle_parts e tr sourceContent collection articleId sourceLocale targetLocale w
          = (Inr (js_text (generateWarningBox (site e) collection articleId sourceLocale
                           targetLocale)
                    @ js_trim c,
                  fst (translateFields tr data targetLocale w)), snd ?r)"
    by (simp add: translateArticle_parts_parsed [OF parse] Let_def)
  with c(2) show ?thesis by blast
qed

text \<open>
  The requests a field adds to the record, and the fallback of a field by what the service
  answers at the moment it is asked.
\<close>

lemma translateText_calls:
  "calls (snd (translateText tr text targetLocale w)) = calls w @ [textRequest tr text targetLocale]"
  by (auto simp: translateText_def chat_completions_create_def Let_def
      split: sum.split option.split)

lemma translateField_calls:
  "calls (snd (translateField tr data k logged targetLocale state)) =
     calls (snd state)
     @ (case data k of
          None \<Rightarrow> []
        | Some v \<Rightarrow> if truthy v then [textRequest tr v targetLocale] else [])"
  by (simp add: translateField_def Let_def case_prod_beta translateText_calls split: option.split)

lemma translateField_fallback_now:
  assumes "\<And>v c. data k = Some v \<Longrightarrow>
      first_content (client tr (calls (snd state)) (textRequest tr v targetLocale)) = Inr (Some c)
      \<Longrightarrow> js_trim c = []"
    and "fst state k = data k"
  shows "fst (translateField tr data k logged targetLocale state) = fst state"
proof (cases "\<exists>v. data k = Some v \<and> truthy v")
  case True
  then obtain v where v: "data k = Some v" "truthy v" by blast
  let ?w = "(snd state)\<lparr> console := console (snd state) @ [logged v] \<rparr>"
  have "fst (translateText tr v targetLocale ?w) = v"
    by (rule translateText_fallback) (use assms(1) [OF v(1)] in simp)
  then have "fst (translateField tr data k logged targetLocale state) = (fst state)(k \<mapsto> v)"
    using v by (simp add: translateField_def Let_def case_prod_beta)
  moreover have "(fst state)(k \<mapsto> v) = fst state"
    using assms(2) v(1) by (simp add: map_upd_triv)
  ultimately show ?thesis by simp
next
  case False
  then show ?thesis
    by (auto simp: translateField_def Let_def case_prod_beta split: option.split)
qed

lemma translateFields_title_fallback_now:
  assumes "\<And>v c. data ''title'' = Some v \<Longrightarrow>
      first_content (client tr (calls w) (textRequest tr v targetLocale)) = Inr (Some c)
      \<Longrightarrow> js_trim c = []"
  shows "fst (translateFields tr data targetLocale w) ''title'' = data ''title''"
proof -
  let ?s1 = "translateField tr data ''title'' LogTranslatingTitle targetLocale (data, w)"
  have "fst ?s1 = fst (data, w)"
    using assms by (intro translateField_fallback_now) auto
  then show ?thesis
    by (simp add: translateFields_def translateField_other_keys)
qed

lemma translateFields_description_fallback_now:
  assumes "\<And>v c. data ''description'' = Some v \<Longrightarrow>
      first_content (client tr
         (calls (snd (translateField tr data ''title'' LogTranslatingTitle targetLocale (data, w))))
         (textRequest tr v targetLocale)) = Inr (Some c)
      \<Longrightarrow> js_trim c = []"
  shows "fst (translateFields tr data targetLocale w) ''description'' = data ''description''"
proof -
  let ?s1 = "translateField tr data ''title'' LogTranslatingTitle targetLocale (data, w)"
  have d1: "fst ?s1 ''description'' = data ''description''"
    by (simp add: translateField_other_keys)
  have "fst (translateField tr data ''description'' LogTranslatingDescription targetLocale ?s1)
      = fst ?s1"
    using assms d1 by (intro translateField_fallback_now) auto
  with d1 show ?thesis
    by (simp add: translateFields_def)
qed

lemma translateArticle_body_ok_now:
  assumes parse: "matter e sourceContent = Inr (data, content)"
    and c: "first_content (client tr (calls (snd (translateFields tr data targetLocale w)))
                  (markdownRequest tr content sourceLocale targetLocale)) = Inr (Some c)"
      "js_trim c \<noteq> []"
  shows "fst (translateArticle e tr sourceContent collection articleId sourceLocale targetLocale w)
          = Inr (matter_stringify e
                   (js_text (generateWarningBox (site e) collection articleId sourceLocale
                               targetLocale)
                    @ js_trim c)
                   (fst (translateFields tr data targetLocale w)))"
proof -
  let ?w1 = "snd (translateFields tr data targetLocale w)"
  let ?w2 = "?w1\<lparr> console := console ?w1 @ [LogTranslatingContent content] \<rparr>"
  have "first_content (client tr (calls ?w2)
       (markdownRequest tr content sourceLocale targetLocale)) = Inr (Some c)"
    using c(1) by simp
  then have "fst (translateMarkdown tr content sourceLocale targetLocale ?w2) = Inr (js_trim c)"
    using c(2) by (rule translateMarkdown_returns)
  then show ?thesis
    by (simp add: translateArticle_parsed [OF parse] Let_def)
qed

section \<open>The loop\<close>

text \<open>One turn of the loop, by its three ways out.\<close>

lemma translate_turn_skip:
  assumes "t \<in> locales (job_article j)"
  shows "translate_turn e tr j t state =
     ((fst state)\<lparr> console := console (fst state)
         @ [LogTranslatingTo (getLanguageName t), WarnAlreadyExists t] \<rparr>, snd state)"
  using assms by (simp add: translate_turn_def targetExists_def Let_def case_prod_beta)

lemma translate_turn_failed:
  assumes "t \<notin> locales (job_article j)"
    and "fst (translateArticle e tr (job_sourceContent j) (contentTypeName (job_collection j))
           (job_articleId j) (job_sourceLocale j) t
           ((fst state)\<lparr> console := console (fst state) @ [LogTranslatingTo (getLanguageName t)] \<rparr>))
         = Inl err"
  shows "snd (translate_turn e tr j t state) = (snd state)\<lparr> failed := failed (snd state) @ [t] \<rparr>
    \<and> files (fst (translate_turn e tr j t state)) = files (fst state)
    \<and> dirs (fst (translate_turn e tr j t state)) = dirs (fst state)"
proof -
  let ?w0 = "(fst state)\<lparr> console := console (fst state) @ [LogTranslatingTo (getLanguageName t)] \<rparr>"
  let ?r = "translateArticle e tr (job_sourceContent j) (contentTypeName (job_collection j))
           (job_articleId j) (job_sourceLocale j) t ?w0"
  have r: "?r = (Inl err, snd ?r)"
    using assms(2) by (metis prod.collapse)
  have turn: "translate_turn e tr j t state =
      ((snd ?r)\<lparr> console := console (snd ?r) @ [ErrTranslationFailed t err] \<rparr>,
       (snd state)\<lparr> failed := failed (snd state) @ [t] \<rparr>)"
    using assms(1) by (subst translate_turn_def) (simp add: targetExists_def Let_def case_prod_beta assms(2))
  show ?thesis
    using translateArticle_disk [of e tr "job_sourceContent j" "contentTypeName (job_collection j)"
        "job_articleId j" "job_sourceLocale j" t ?w0]
    by (simp add: turn)
qed

lemma translate_turn_saved:
  assumes "t \<notin> locales (job_article j)"
    and "fst (translateArticle e tr (job_sourceContent j) (contentTypeName (job_collection j))
           (job_articleId j) (job_sourceLocale j) t
           ((fst state)\<lparr> console := console (fst state) @ [LogTranslatingTo (getLanguageName t)] \<rparr>))
         = Inr out"
  shows "snd (translate_turn e tr j t state) = (snd state)\<lparr> success := success (snd state) @ [t] \<rparr>
    \<and> files (fst (translate_turn e tr j t state)) =
        (files (fst state))
          (fst (getTargetArticlePath e (job_article j) (job_sourceLocale j) t (fst state)) \<mapsto> out)
    \<and> dirs (fst state) \<subseteq> dirs (fst (translate_turn e tr j t state))"
proof -
  let ?w0 = "(fst state)\<lparr> console := console (fst state) @ [LogTranslatingTo (getLanguageName t)] \<rparr>"
  let ?r = "translateArticle e tr (job_sourceContent j) (contentTypeName (job_collection j))
           (job_articleId j) (job_sourceLocale j) t ?w0"
  let ?g = "getTargetArticlePath e (job_article j) (job_sourceLocale j) t (snd ?r)"
  have turn: "translate_turn e tr j t state =
      ((writeFileSync (fst ?g) out (snd ?g))\<lparr> console :=
           console (writeFileSync (fst ?g) out (snd ?g)) @ [LogSaved (fst ?g)] \<rparr>,
       (snd state)\<lparr> success := success (snd state) @ [t] \<rparr>)"
    using assms(1) by (subst translate_turn_def) (simp add: targetExists_def Let_def case_prod_beta assms(2))
  have path: "fst ?g = fst (getTargetArticlePath e (job_article j) (job_sourceLocale j) t (fst state))"
    by (rule getTargetArticlePath_anywhere)
  have disk: "dirs (snd ?r) = dirs (fst state)" "files (snd ?r) = files (fst state)"
    using translateArticle_disk [of e tr "job_sourceContent j" "contentTypeName (job_collection j)"
        "job_articleId j" "job_sourceLocale j" t ?w0]
    by simp_all
  have g: "files (snd ?g) = files (snd ?r)" "dirs (snd ?r) \<subseteq> dirs (snd ?g)"
    using getTargetArticlePath_world [of e "job_article j" "job_sourceLocale j" t "snd ?r"]
    by simp_all
  show ?thesis
    using g disk by (simp add: turn writeFileSync_def path)
qed

lemma translate_turn_cases:
  obtains (skip) "t \<in> locales (job_article j)"
  | (failed) err where "t \<notin> locales (job_article j)"
      "fst (translateArticle e tr (job_sourceContent j) (contentTypeName (job_collection j))
           (job_articleId j) (job_sourceLocale j) t
           ((fst state)\<lparr> console := console (fst state) @ [LogTranslatingTo (getLanguageName t)] \<rparr>))
         = Inl err"
  | (saved) out where "t \<notin> locales (job_article j)"
      "fst (translateArticle e tr (job_sourceContent j) (contentTypeName (job_collection j))
           (job_articleId j) (job_sourceLocale j) t
           ((fst state)\<lparr> console := console (fst state) @ [LogTranslatingTo (getLanguageName t)] \<rparr>))
         = Inr out"
  by (cases "t \<in> locales (job_article j)";
      cases "fst (translateArticle e tr (job_sourceContent j) (contentTypeName (job_collection j))
           (job_articleId j) (job_sourceLocale j) t
           ((fst state)\<lparr> console := console (fst state) @ [LogTranslatingTo (getLanguageName t)] \<rparr>))")
    auto

lemma translate_turn_elsewhere:
  assumes "p \<noteq> fst (getTargetArticlePath e (job_article j) (job_sourceLocale j) t w)"
  shows "files (fst (translate_turn e tr j t state)) p = files (fst state) p"
proof (cases rule: translate_turn_cases [where t = t and j = j and e = e and tr = tr and state = state])
  case skip
  then show ?thesis by (simp add: translate_turn_skip)
next
  case (failed err)
  then show ?thesis using translate_turn_failed [of t j e tr state err] by simp
next
  case (saved out)
  have "p \<noteq> fst (getTargetArticlePath e (job_article j) (job_sourceLocale j) t (fst state))"
    using assms
      getTargetArticlePath_anywhere [of e "job_article j" "job_sourceLocale j" t w "fst state"]
    by simp
  then show ?thesis using translate_turn_saved [of t j e tr state out] saved by simp
qed

lemma translate_turn_keeps_files:
  assumes "files (fst state) p \<noteq> None"
  shows "files (fst (translate_turn e tr j t state)) p \<noteq> None"
proof (cases rule: translate_turn_cases [where t = t and j = j and e = e and tr = tr and state = state])
  case skip
  with assms show ?thesis by (simp add: translate_turn_skip)
next
  case (failed err)
  then show ?thesis using translate_turn_failed [of t j e tr state err] assms by simp
next
  case (saved out)
  then show ?thesis using translate_turn_saved [of t j e tr state out] assms by simp
qed

lemma translate_turn_stats:
  "(success (snd (translate_turn e tr j t state)) = success (snd state)
      \<or> t \<notin> locales (job_article j)
        \<and> success (snd (translate_turn e tr j t state)) = success (snd state) @ [t])
   \<and> (failed (snd (translate_turn e tr j t state)) = failed (snd state)
      \<or> t \<notin> locales (job_article j)
        \<and> failed (snd (translate_turn e tr j t state)) = failed (snd state) @ [t])"
proof (cases rule: translate_turn_cases [where t = t and j = j and e = e and tr = tr and state = state])
  case skip
  then show ?thesis by (simp add: translate_turn_skip)
next
  case (failed err)
  then show ?thesis using translate_turn_failed [of t j e tr state err] by simp
next
  case (saved out)
  then show ?thesis using translate_turn_saved [of t j e tr state out] by simp
qed

lemma translate_turn_processed:
  assumes "t \<notin> locales (job_article j)"
  shows "t \<in> set (success (snd (translate_turn e tr j t state)))
       \<or> t \<in> set (failed (snd (translate_turn e tr j t state)))"
proof (cases rule: translate_turn_cases [where t = t and j = j and e = e and tr = tr and state = state])
  case skip
  with assms show ?thesis by simp
next
  case (failed err)
  then show ?thesis using translate_turn_failed [of t j e tr state err] by simp
next
  case (saved out)
  then show ?thesis using translate_turn_saved [of t j e tr state out] by simp
qed

text \<open>The loop: what a run over a list of target locales leaves behind.\<close>

lemma translate_loop_append:
  "translate_loop e tr j (ts @ us) state = translate_loop e tr j us (translate_loop e tr j ts state)"
  by (induction ts arbitrary: state) auto

lemma translate_loop_stats_grow:
  "set (success (snd state)) \<subseteq> set (success (snd (translate_loop e tr j ts state)))
   \<and> set (failed (snd state)) \<subseteq> set (failed (snd (translate_loop e tr j ts state)))"
proof (induction ts arbitrary: state)
  case Nil
  show ?case by simp
next
  case (Cons t ts)
  have "set (success (snd state)) \<subseteq> set (success (snd (translate_turn e tr j t state)))"
    "set (failed (snd state)) \<subseteq> set (failed (snd (translate_turn e tr j t state)))"
    using translate_turn_stats [of e tr j t state] by auto
  with Cons [of "translate_turn e tr j t state"] show ?case
    by auto
qed

lemma translate_loop_keeps_files:
  "files (fst state) p \<noteq> None \<Longrightarrow> files (fst (translate_loop e tr j ts state)) p \<noteq> None"
proof (induction ts arbitrary: state)
  case Nil
  then show ?case by simp
next
  case (Cons t ts)
  from Cons.prems have "files (fst (translate_turn e tr j t state)) p \<noteq> None"
    by (rule translate_turn_keeps_files)
  then show ?case
    using Cons.IH [of "translate_turn e tr j t state"] by simp
qed

text \<open>
  The paths of two different target locales differ where the names are plain, so a turn for
  one locale leaves the file of another alone.
\<close>

lemma translate_loop_elsewhere:
  assumes plain: "plain_directory (CONTENT_DIR e)" "plain_segment (article_id (job_article j))"
      "plain_segment t" "\<forall>u\<in>set ts. plain_segment u"
    and own: "\<And>state. files (fst (translate_turn e tr j t state))
                 (fst (getTargetArticlePath e (job_article j) (job_sourceLocale j) t w))
               = files (fst state)
                   (fst (getTargetArticlePath e (job_article j) (job_sourceLocale j) t w))"
  shows "files (fst (translate_loop e tr j ts state))
           (fst (getTargetArticlePath e (job_article j) (job_sourceLocale j) t w))
         = files (fst state) (fst (getTargetArticlePath e (job_article j) (job_sourceLocale j) t w))"
  using plain(4)
proof (induction ts arbitrary: state)
  case Nil
  show ?case by simp
next
  case (Cons u us)
  let ?p = "fst (getTargetArticlePath e (job_article j) (job_sourceLocale j) t w)"
  let ?s = "translate_turn e tr j u state"
  have u: "plain_segment u" and us: "\<forall>u\<in>set us. plain_segment u"
    using Cons.prems by simp_all
  have "files (fst ?s) ?p = files (fst state) ?p"
  proof (cases "u = t")
    case True
    then show ?thesis by (simp add: own)
  next
    case False
    then have "?p \<noteq> fst (getTargetArticlePath e (job_article j) (job_sourceLocale j) u w)"
      using getTargetArticlePath_inj [OF plain(1,2,3) u] by blast
    then show ?thesis by (rule translate_turn_elsewhere)
  qed
  with Cons.IH [OF us, of ?s] show ?case by simp
qed

lemma translate_loop_skipped:
  assumes "t \<in> locales (job_article j)"
  shows "(t \<in> set (success (snd (translate_loop e tr j ts state))) \<longrightarrow> t \<in> set (success (snd state)))
    \<and> (t \<in> set (failed (snd (translate_loop e tr j ts state))) \<longrightarrow> t \<in> set (failed (snd state)))"
proof (induction ts arbitrary: state)
  case Nil
  show ?case by simp
next
  case (Cons u us)
  let ?s = "translate_turn e tr j u state"
  have stats: "t \<in> set (success (snd ?s)) \<longrightarrow> t \<in> set (success (snd state))"
    "t \<in> set (failed (snd ?s)) \<longrightarrow> t \<in> set (failed (snd state))"
    using translate_turn_stats [of e tr j u state] assms by auto
  from Cons [of ?s] stats show ?case by simp
qed

lemma translate_loop_skipped_file:
  assumes "t \<in> locales (job_article j)"
    and "plain_directory (CONTENT_DIR e)" "plain_segment (article_id (job_article j))"
      "plain_segment t" "\<forall>u\<in>set ts. plain_segment u"
  shows "files (fst (translate_loop e tr j ts state))
           (fst (getTargetArticlePath e (job_article j) (job_sourceLocale j) t w))
         = files (fst state) (fst (getTargetArticlePath e (job_article j) (job_sourceLocale j) t w))"
  using assms(2-5)
  by (rule translate_loop_elsewhere) (simp add: translate_turn_skip [OF assms(1)])

lemma translate_loop_failing:
  assumes new: "t \<notin> locales (job_article j)"
    and fails: "\<And>w. \<exists>err. fst (translateArticle e tr (job_sourceContent j)
        (contentTypeName (job_collection j)) (job_articleId j) (job_sourceLocale j) t w) = Inl err"
  shows "(t \<in> set (success (snd (translate_loop e tr j ts state))) \<longrightarrow> t \<in> set (success (snd state)))
    \<and> (t \<in> set ts \<longrightarrow> t \<in> set (failed (snd (translate_loop e tr j ts state))))"
proof (induction ts arbitrary: state)
  case Nil
  show ?case by simp
next
  case (Cons u us)
  let ?s = "translate_turn e tr j u state"
  let ?w0 = "(fst state)\<lparr> console := console (fst state) @ [LogTranslatingTo (getLanguageName t)] \<rparr>"
  obtain err where err: "fst (translateArticle e tr (job_sourceContent j)
        (contentTypeName (job_collection j)) (job_articleId j) (job_sourceLocale j) t ?w0) = Inl err"
    using fails by blast
  note own = translate_turn_failed [OF new err]
  have succ: "t \<in> set (success (snd ?s)) \<longrightarrow> t \<in> set (success (snd state))"
  proof (cases "u = t")
    case True
    with own show ?thesis by simp
  next
    case False
    then show ?thesis using translate_turn_stats [of e tr j u state] by auto
  qed
  have fail: "u = t \<longrightarrow> t \<in> set (failed (snd ?s))"
    using own by auto
  have grow: "set (failed (snd ?s)) \<subseteq> set (failed (snd (translate_loop e tr j us ?s)))"
    using translate_loop_stats_grow by blast
  from Cons [of ?s] succ fail grow show ?case by auto
qed

lemma translate_loop_failing_file:
  assumes new: "t \<notin> locales (job_article j)"
    and fails: "\<And>w. \<exists>err. fst (translateArticle e tr (job_sourceContent j)
        (contentTypeName (job_collection j)) (job_articleId j) (job_sourceLocale j) t w) = Inl err"
    and plain: "plain_directory (CONTENT_DIR e)" "plain_segment (article_id (job_article j))"
      "plain_segment t" "\<forall>u\<in>set ts. plain_segment u"
  shows "files (fst (translate_loop e tr j ts state))
           (fst (getTargetArticlePath e (job_article j) (job_sourceLocale j) t w))
         = files (fst state) (fst (getTargetArticlePath e (job_article j) (job_sourceLocale j) t w))"
  using plain
proof (rule translate_loop_elsewhere)
  fix state :: "world \<times> stats"
  let ?w0 = "(fst state)\<lparr> console := console (fst state) @ [LogTranslatingTo (getLanguageName t)] \<rparr>"
  obtain err where err: "fst (translateArticle e tr (job_sourceContent j)
        (contentTypeName (job_collection j)) (job_articleId j) (job_sourceLocale j) t ?w0) = Inl err"
    using fails by blast
  from translate_turn_failed [OF new err]
  show "files (fst (translate_turn e tr j t state))
          (fst (getTargetArticlePath e (job_article j) (job_sourceLocale j) t w))
        = files (fst state) (fst (getTargetArticlePath e (job_article j) (job_sourceLocale j) t w))"
    by simp
qed

lemma translate_loop_succeeding:
  assumes new: "t \<notin> locales (job_article j)"
    and ok: "\<And>w. \<exists>out. fst (translateArticle e tr (job_sourceContent j)
        (contentTypeName (job_collection j)) (job_articleId j) (job_sourceLocale j) t w) = Inr out"
  shows "(t \<in> set (failed (snd (translate_loop e tr j ts state))) \<longrightarrow> t \<in> set (failed (snd state)))
    \<and> (t \<in> set ts \<longrightarrow> t \<in> set (success (snd (translate_loop e tr j ts state)))
        \<and> files (fst (translate_loop e tr j ts state))
             (fst (getTargetArticlePath e (job_article j) (job_sourceLocale j) t w)) \<noteq> None)"
proof (induction ts arbitrary: state)
  case Nil
  show ?case by simp
next
  case (Cons u us)
  let ?p = "fst (getTargetArticlePath e (job_article j) (job_sourceLocale j) t w)"
  let ?s = "translate_turn e tr j u state"
  let ?w0 = "(fst state)\<lparr> console := console (fst state) @ [LogTranslatingTo (getLanguageName t)] \<rparr>"
  obtain out where out: "fst (translateArticle e tr (job_sourceContent j)
        (contentTypeName (job_collection j)) (job_articleId j) (job_sourceLocale j) t ?w0) = Inr out"
    using ok by blast
  note own = translate_turn_saved [OF new out]
  have p: "fst (getTargetArticlePath e (job_article j) (job_sourceLocale j) t (fst state)) = ?p"
    by (rule getTargetArticlePath_anywhere)
  have fail: "t \<in> set (failed (snd ?s)) \<longrightarrow> t \<in> set (failed (snd state))"
  proof (cases "u = t")
    case True
    with own show ?thesis by simp
  next
    case False
    then show ?thesis using translate_turn_stats [of e tr j u state] by auto
  qed
  have here: "u = t \<longrightarrow> t \<in> set (success (snd ?s)) \<and> files (fst ?s) ?p \<noteq> None"
    using own p by auto
  have grow: "set (success (snd ?s)) \<subseteq> set (success (snd (translate_loop e tr j us ?s)))"
    using translate_loop_stats_grow by blast
  have keep: "files (fst ?s) ?p \<noteq> None \<longrightarrow> files (fst (translate_loop e tr j us ?s)) ?p \<noteq> None"
    using translate_loop_keeps_files by blast
  from Cons [of ?s] fail here grow keep show ?case by auto
qed

lemma translate_loop_processed:
  assumes "t \<in> set ts" and "t \<notin> locales (job_article j)"
  shows "t \<in> set (success (snd (translate_loop e tr j ts state)))
       \<or> t \<in> set (failed (snd (translate_loop e tr j ts state)))"
  using assms(1)
proof (induction ts arbitrary: state)
  case Nil
  then show ?case by simp
next
  case (Cons u us)
  let ?s = "translate_turn e tr j u state"
  show ?case
  proof (cases "u = t")
    case True
    have "t \<in> set (success (snd ?s)) \<or> t \<in> set (failed (snd ?s))"
      unfolding True using assms(2) by (rule translate_turn_processed)
    then show ?thesis
      using translate_loop_stats_grow [of ?s e tr j us] by auto
  next
    case False
    with Cons show ?thesis by simp
  qed
qed

section \<open>The sample run\<close>

lemma sample_parse:
  "matter sample_env (job_sourceContent sample_job) = Inr (sample_data, ''Hello there'')"
  by (simp add: sample_env_def sample_job_def)

lemma sample_prompts_differ: "systemPrompt \<noteq> textSystemPrompt"
  by (simp add: systemPrompt_def textSystemPrompt_def)

lemma sample_user_prompt: "userPrompt c s t \<noteq> ''Translate to English (en): Hello''"
  by (simp add: userPrompt_def)

lemma sample_names: "getLanguageName ''ja'' = JString name_ja"
  "getLanguageName ''en'' = JString ''English''" "getLanguageName ''zh-cn'' = JString name_zh_cn"
  "getLanguageName ''fr'' = JString ''fr''"
  by (simp_all add: getLanguageName_def record_get_def LANGUAGE_NAMES_def name_ja_def
      name_zh_cn_def Object_prototype_def)

lemma sample_user_prompts_differ:
  "userPrompt ''Hello there'' ''zh-cn'' ''en'' \<noteq> userPrompt ''Hello there'' ''zh-cn'' ''ja''"
  by (simp add: userPrompt_def sample_names name_ja_def)

lemma sample_body_reply_ja:
  "client sample_translator log (markdownRequest sample_translator ''Hello there'' ''zh-cn'' ''ja'')
     = Completion [None]"
  by (simp add: sample_translator_def markdownRequest_def sample_prompts_differ sample_user_prompt)

lemma sample_body_reply_en:
  "client sample_translator log (markdownRequest sample_translator ''Hello there'' ''zh-cn'' ''en'')
     = Completion [Some ''Translated body'', None]"
  by (simp add: sample_translator_def markdownRequest_def sample_prompts_differ sample_user_prompt
      sample_user_prompts_differ)

lemma sample_trim: "js_trim ''Translated body'' = ''Translated body''" "js_trim '' Hello! '' = ''Hello!''"
  "js_trim ''Translated'' = ''Translated''"
  by code_simp+

lemma flaky_reply:
  "client flaky_translator [] req = Rejected"
  "log \<noteq> [] \<Longrightarrow> client flaky_translator log req = Completion [Some ''Translated'']"
  by (simp_all add: flaky_translator_def)

lemma sample_fields:
  "sample_data ''title'' = Some (YStr ''Hello'')"
  "sample_data ''description'' = Some (YStr ''A greeting'')"
  by (simp_all add: sample_data_def)

lemma sample_plain: "plain_directory (CONTENT_DIR sample_env)"
  "plain_segment (article_id (job_article sample_job))"
  "plain_segment ''ja''" "plain_segment ''fr''" "plain_segment ''en''"
  unfolding sample_env_def sample_job_def sample_article_def by code_simp+

lemma sample_paths:
  "fst (getTargetArticlePath sample_env (job_article sample_job) (job_sourceLocale sample_job)
     ''ja'' w) = ''/blog/src/content/note/demo/ja.md''"
  "fst (getTargetArticlePath sample_env (job_article sample_job) (job_sourceLocale sample_job)
     ''fr'' w) = ''/blog/src/content/note/demo/fr.md''"
  "fst (getTargetArticlePath sample_env (job_article sample_job) (job_sourceLocale sample_job)
     ''en'' w) = ''/blog/src/content/note/demo/en.md''"
  by (simp_all add: getTargetArticlePath_fst [OF sample_plain(1,2)] sample_plain)
    (simp_all add: sample_env_def sample_job_def sample_article_def)

section \<open>The frontmatter of a translation\<close>

text \<open>
  Claim C8. For a source file that parses, the frontmatter mapping that \<^verbatim>\<open>translateArticle\<close>
  hands to the serialiser has the keys of the source mapping, and every key other than
  \<^verbatim>\<open>title\<close> and \<^verbatim>\<open>description\<close> has the value of the source mapping; the output is that mapping
  serialised with the body. The mapping is there whenever the body translation answers.
\<close>

theorem other_frontmatter_keys_copied:
  assumes parse: "matter e sourceContent = Inr (data, content)"
  shows "(\<forall>finalContent translatedData w'.
            translateArticle_parts e tr sourceContent collection articleId sourceLocale
              targetLocale w = (Inr (finalContent, translatedData), w') \<longrightarrow>
            (\<forall>k. k \<noteq> ''title'' \<and> k \<noteq> ''description'' \<longrightarrow> translatedData k = data k)
            \<and> dom translatedData = dom data
            \<and> translateArticle e tr sourceContent collection articleId sourceLocale targetLocale w
                = (Inr (matter_stringify e finalContent translatedData), w'))
    \<and> ((\<forall>log. \<exists>c. first_content (client tr log
                  (markdownRequest tr content sourceLocale targetLocale)) = Inr (Some c)
                \<and> js_trim c \<noteq> []) \<longrightarrow>
        (\<exists>finalContent translatedData w'.
            translateArticle_parts e tr sourceContent collection articleId sourceLocale
              targetLocale w = (Inr (finalContent, translatedData), w')))"
proof -
  have copied: "(\<forall>k. k \<noteq> ''title'' \<and> k \<noteq> ''description'' \<longrightarrow> translatedData k = data k)
            \<and> dom translatedData = dom data
            \<and> translateArticle e tr sourceContent collection articleId sourceLocale targetLocale w
                = (Inr (matter_stringify e finalContent translatedData), w')"
    if run: "translateArticle_parts e tr sourceContent collection articleId sourceLocale
              targetLocale w = (Inr (finalContent, translatedData), w')"
    for finalContent translatedData w'
  proof -
    from run have td: "translatedData = fst (translateFields tr data targetLocale w)"
      by (auto simp: translateArticle_parts_parsed [OF parse] Let_def split: sum.splits)
    have "\<forall>k. k \<noteq> ''title'' \<and> k \<noteq> ''description'' \<longrightarrow> translatedData k = data k"
      by (simp add: td translateFields_other_keys)
    moreover have "dom translatedData = dom data"
      by (simp add: td translateFields_dom)
    moreover have "translateArticle e tr sourceContent collection articleId sourceLocale
        targetLocale w = (Inr (matter_stringify e finalContent translatedData), w')"
      by (simp add: translateArticle_def run)
    ultimately show ?thesis by blast
  qed
  have returns: "\<exists>finalContent translatedData w'.
            translateArticle_parts e tr sourceContent collection articleId sourceLocale
              targetLocale w = (Inr (finalContent, translatedData), w')"
    if "\<forall>log. \<exists>c. first_content (client tr log
                  (markdownRequest tr content sourceLocale targetLocale)) = Inr (Some c)
                \<and> js_trim c \<noteq> []"
    using translateArticle_parts_body_ok [OF parse, where tr = tr and sourceLocale = sourceLocale
        and targetLocale = targetLocale and collection = collection and articleId = articleId
        and w = w] that
    by blast
  from copied returns show ?thesis by blast
qed

text \<open>
  The sample article translated into English: the tags and the draft flag of the source
  are in the mapping of the translation.
\<close>

theorem other_frontmatter_keys_copied_witness:
  "\<exists>finalContent translatedData w'.
      translateArticle_parts sample_env sample_translator ''Hello there'' ''note'' ''demo''
        ''zh-cn'' ''en'' sample_world = (Inr (finalContent, translatedData), w')
      \<and> translatedData ''tags'' = Some (YSeq [YStr ''a'', YStr ''b''])
      \<and> translatedData ''draft'' = Some (YBool False)
      \<and> translatedData ''author'' = None
      \<and> translateArticle sample_env sample_translator ''Hello there'' ''note'' ''demo''
        ''zh-cn'' ''en'' sample_world = (Inr (matter_stringify sample_env finalContent translatedData), w')"
proof -
  have parse: "matter sample_env ''Hello there'' = Inr (sample_data, ''Hello there'')"
    by (simp add: sample_env_def)
  have ok: "\<forall>log. \<exists>c. first_content (client sample_translator log
      (markdownRequest sample_translator ''Hello there'' ''zh-cn'' ''en'')) = Inr (Some c)
      \<and> js_trim c \<noteq> []"
    by (simp add: sample_body_reply_en sample_trim)
  note inst = other_frontmatter_keys_copied [OF parse, of sample_translator "''note''" "''demo''"
      "''zh-cn''" "''en''" sample_world]
  note returns = inst [THEN conjunct2, THEN mp, OF ok]
  obtain finalContent translatedData w' where run:
      "translateArticle_parts sample_env sample_translator ''Hello there'' ''note'' ''demo''
        ''zh-cn'' ''en'' sample_world = (Inr (finalContent, translatedData), w')"
    using returns by (elim exE)
  note copied = inst [THEN conjunct1, THEN spec, THEN spec, THEN spec, THEN mp, OF run]
  have keys: "\<forall>k. k \<noteq> ''title'' \<and> k \<noteq> ''description'' \<longrightarrow> translatedData k = sample_data k"
    using copied by (rule conjunct1)
  have out: "translateArticle sample_env sample_translator ''Hello there'' ''note'' ''demo''
        ''zh-cn'' ''en'' sample_world = (Inr (matter_stringify sample_env finalContent translatedData), w')"
    using copied by (elim conjE)
  have "translatedData ''tags'' = Some (YSeq [YStr ''a'', YStr ''b''])"
    "translatedData ''draft'' = Some (YBool False)" "translatedData ''author'' = None"
    using keys by (simp_all add: sample_data_def)
  with run out show ?thesis
    by (intro exI conjI)
qed

section \<open>The disclaimer\<close>





section \<open>Failures and skips in the loop\<close>

text \<open>
  Claim C4. A target locale that the article already has is skipped: the turn leaves the
  files, the directories and the record of requests as they were, writes the warning to
  the console and leaves both tallies alone. After the whole loop the locale is in the
  failure list (or the success list) only if it was there before the loop; and where the
  content directory is a plain absolute directory and the id of the article and the
  locales asked for are plain path segments, the file of that locale is as before.
\<close>

theorem existing_locale_skipped:
  assumes "t \<in> locales (job_article j)"
  shows "translate_turn e tr j t (w, st) =
           (w\<lparr> console := console w @ [LogTranslatingTo (getLanguageName t), WarnAlreadyExists t] \<rparr>,
            st)
    \<and> (plain_directory (CONTENT_DIR e) \<and> plain_segment (article_id (job_article j))
        \<and> plain_segment t \<and> (\<forall>u\<in>set ts. plain_segment u) \<longrightarrow>
        files (fst (translate_loop e tr j ts (w, st)))
          (fst (getTargetArticlePath e (job_article j) (job_sourceLocale j) t w))
        = files w (fst (getTargetArticlePath e (job_article j) (job_sourceLocale j) t w)))
    \<and> (t \<in> set (failed (snd (translate_loop e tr j ts (w, st)))) \<longrightarrow> t \<in> set (failed st))
    \<and> (t \<in> set (success (snd (translate_loop e tr j ts (w, st)))) \<longrightarrow> t \<in> set (success st))"
  using translate_turn_skip [OF assms, of e tr "(w, st)"]
    translate_loop_skipped [OF assms, of e tr ts "(w, st)"]
    translate_loop_skipped_file [OF assms, of e ts tr "(w, st)" w]
  by simp

text \<open>
  The sample article has a French version; asked for Japanese, French and English, the loop
  warns about French and counts it neither as a failure nor as a success.
\<close>

theorem existing_locale_skipped_witness:
  "''fr'' \<in> locales (job_article sample_job)
   \<and> translate_turn sample_env sample_translator sample_job ''fr''
        (sample_world, \<lparr> success = [], failed = [] \<rparr>)
      = (sample_world\<lparr> console := [LogTranslatingTo (JString ''fr''), WarnAlreadyExists ''fr''] \<rparr>,
         \<lparr> success = [], failed = [] \<rparr>)
   \<and> plain_directory (CONTENT_DIR sample_env)
   \<and> plain_segment (article_id (job_article sample_job))
   \<and> plain_segment ''ja'' \<and> plain_segment ''fr'' \<and> plain_segment ''en''
   \<and> files (fst (translate_loop sample_env sample_translator sample_job
        [''ja'', ''fr'', ''en''] (sample_world, \<lparr> success = [], failed = [] \<rparr>)))
        ''/blog/src/content/note/demo/fr.md'' = None
   \<and> ''fr'' \<notin> set (failed (snd (translate_loop sample_env sample_translator sample_job
        [''ja'', ''fr'', ''en''] (sample_world, \<lparr> success = [], failed = [] \<rparr>))))
   \<and> ''fr'' \<notin> set (success (snd (translate_loop sample_env sample_translator sample_job
        [''ja'', ''fr'', ''en''] (sample_world, \<lparr> success = [], failed = [] \<rparr>))))"
proof -
  have fr: "''fr'' \<in> locales (job_article sample_job)"
    by (simp add: sample_job_def sample_article_def)
  have con: "console sample_world = []"
    by (simp add: sample_world_def)
  have before: "files sample_world ''/blog/src/content/note/demo/fr.md'' = None"
    by (simp add: sample_world_def)
  have plain: "plain_directory (CONTENT_DIR sample_env)
      \<and> plain_segment (article_id (job_article sample_job))
      \<and> plain_segment ''fr'' \<and> (\<forall>u\<in>set [''ja'', ''fr'', ''en'']. plain_segment u)"
    by (simp add: sample_plain)
  note inst = existing_locale_skipped [OF fr, of sample_env sample_translator sample_world
      "\<lparr> success = [], failed = [] \<rparr>" "[''ja'', ''fr'', ''en'']"]
  have kept: "files (fst (translate_loop sample_env sample_translator sample_job
        [''ja'', ''fr'', ''en''] (sample_world, \<lparr> success = [], failed = [] \<rparr>)))
        ''/blog/src/content/note/demo/fr.md'' = None"
    using inst [THEN conjunct2, THEN conjunct1, THEN mp, OF plain]
    by (simp add: sample_paths before)
  from inst fr kept show ?thesis
    by (simp add: sample_names con sample_plain)
qed

section \<open>Best-effort fields, fatal body\<close>

text \<open>
  Claim C3. \<^verbatim>\<open>translateText\<close> has no error result: it returns the text it was given, or the
  trimmed content of the first choice where that is not empty. It returns the text
  whenever the service has no translation for it at that call (the call is rejected, the
  response has no choice, or its content is null or blank). In a turn of the loop, a title
  for which the service has no translation when the title is sent keeps its source value
  in the translated frontmatter, and so does a description for which it has none when the
  description is sent, which is after the request for the title, if there was one.
  Whatever became of the two fields: where the source parses, the target locale is new and
  the service answers the body when the body is sent, after the requests for the fields,
  the turn succeeds: the locale joins the success list, and the file written is the
  serialisation of the disclaimer with the translated body and of that translated
  frontmatter.
\<close>

theorem field_translation_falls_back:
  "(fst (translateText tr text t w) = text
      \<or> (\<exists>c. first_content (client tr (calls w) (textRequest tr text t)) = Inr (Some c)
             \<and> js_trim c \<noteq> [] \<and> fst (translateText tr text t w) = YStr (js_trim c)))
   \<and> ((\<forall>c. first_content (client tr (calls w) (textRequest tr text t)) = Inr (Some c)
             \<longrightarrow> js_trim c = [])
        \<longrightarrow> fst (translateText tr text t w) = text)
   \<and> (let w0 = (fst state)\<lparr> console := console (fst state)
                    @ [LogTranslatingTo (getLanguageName t)] \<rparr>;
            translatedData = fst (translateFields tr data t w0);
            titleLog = calls w0;
            descriptionLog =
              calls (snd (translateField tr data ''title'' LogTranslatingTitle t (data, w0)));
            bodyLog = calls (snd (translateFields tr data t w0))
        in (data ''title'' = Some text \<longrightarrow>
              (\<forall>c. first_content (client tr titleLog (textRequest tr text t)) = Inr (Some c)
                   \<longrightarrow> js_trim c = []) \<longrightarrow>
              translatedData ''title'' = Some text)
         \<and> (data ''description'' = Some text \<longrightarrow>
              (\<forall>c. first_content (client tr descriptionLog (textRequest tr text t)) = Inr (Some c)
                   \<longrightarrow> js_trim c = []) \<longrightarrow>
              translatedData ''description'' = Some text)
         \<and> (matter e (job_sourceContent j) = Inr (data, content) \<longrightarrow>
              t \<notin> locales (job_article j) \<longrightarrow>
              first_content (client tr bodyLog (markdownRequest tr content (job_sourceLocale j) t))
                = Inr (Some body) \<longrightarrow>
              js_trim body \<noteq> [] \<longrightarrow>
              snd (translate_turn e tr j t state)
                = (snd state)\<lparr> success := success (snd state) @ [t] \<rparr>
              \<and> files (fst (translate_turn e tr j t state))
                    (fst (getTargetArticlePath e (job_article j) (job_sourceLocale j) t
                       (fst state)))
                  = Some (matter_stringify e
                            (js_text (generateWarningBox (site e)
                                        (contentTypeName (job_collection j)) (job_articleId j)
                                        (job_sourceLocale j) t)
                             @ js_trim body)
                            translatedData)))"
proof -
  let ?w0 = "(fst state)\<lparr> console := console (fst state) @ [LogTranslatingTo (getLanguageName t)] \<rparr>"
  have result: "fst (translateText tr text t w) = text
      \<or> (\<exists>c. first_content (client tr (calls w) (textRequest tr text t)) = Inr (Some c)
             \<and> js_trim c \<noteq> [] \<and> fst (translateText tr text t w) = YStr (js_trim c))"
    by (rule translateText_result)
  have same: "fst (translateText tr text t w) = text"
    if "\<forall>c. first_content (client tr (calls w) (textRequest tr text t)) = Inr (Some c)
             \<longrightarrow> js_trim c = []"
    by (rule translateText_fallback) (use that in blast)
  have title: "fst (translateFields tr data t ?w0) ''title'' = Some text"
    if v: "data ''title'' = Some text"
      and fails: "\<forall>c. first_content (client tr (calls ?w0) (textRequest tr text t)) = Inr (Some c)
             \<longrightarrow> js_trim c = []"
  proof -
    have "fst (translateFields tr data t ?w0) ''title'' = data ''title''"
      by (rule translateFields_title_fallback_now) (use v fails in auto)
    with v show ?thesis by simp
  qed
  have description: "fst (translateFields tr data t ?w0) ''description'' = Some text"
    if v: "data ''description'' = Some text"
      and fails: "\<forall>c. first_content
               (client tr
                  (calls (snd (translateField tr data ''title'' LogTranslatingTitle t (data, ?w0))))
                  (textRequest tr text t)) = Inr (Some c)
             \<longrightarrow> js_trim c = []"
  proof -
    have "fst (translateFields tr data t ?w0) ''description'' = data ''description''"
      by (rule translateFields_description_fallback_now) (use v fails in auto)
    with v show ?thesis by simp
  qed
  have turn: "snd (translate_turn e tr j t state)
          = (snd state)\<lparr> success := success (snd state) @ [t] \<rparr>
        \<and> files (fst (translate_turn e tr j t state))
              (fst (getTargetArticlePath e (job_article j) (job_sourceLocale j) t (fst state)))
            = Some (matter_stringify e
                      (js_text (generateWarningBox (site e) (contentTypeName (job_collection j))
                                  (job_articleId j) (job_sourceLocale j) t)
                       @ js_trim body)
                      (fst (translateFields tr data t ?w0)))"
    if parse: "matter e (job_sourceContent j) = Inr (data, content)"
      and new: "t \<notin> locales (job_article j)"
      and c: "first_content (client tr (calls (snd (translateFields tr data t ?w0)))
                (markdownRequest tr content (job_sourceLocale j) t)) = Inr (Some body)"
        "js_trim body \<noteq> []"
  proof -
    have out: "fst (translateArticle e tr (job_sourceContent j) (contentTypeName (job_collection j))
           (job_articleId j) (job_sourceLocale j) t ?w0)
        = Inr (matter_stringify e
                 (js_text (generateWarningBox (site e) (contentTypeName (job_collection j))
                             (job_articleId j) (job_sourceLocale j) t)
                  @ js_trim body)
                 (fst (translateFields tr data t ?w0)))"
      using parse c by (rule translateArticle_body_ok_now)
    from translate_turn_saved [OF new out] show ?thesis by simp
  qed
  from result same title description turn show ?thesis
    unfolding Let_def by blast
qed

text \<open>
  The first service of the sample rejects the request for the description: in the
  English turn the description keeps its source value. The second service rejects the
  first request made to it, which is the one for the title, and answers the later ones:
  the English turn keeps the title of the source and succeeds, and the file written is
  serialised from a mapping with the source title.
\<close>

theorem field_translation_falls_back_witness:
  "fst (translateText flaky_translator (YStr ''Hello'') ''en'' sample_world) = YStr ''Hello''
   \<and> sample_data ''description'' = Some (YStr ''A greeting'')
   \<and> fst (translateFields sample_translator sample_data ''en''
        (sample_world\<lparr> console := console sample_world
            @ [LogTranslatingTo (getLanguageName ''en'')] \<rparr>)) ''description''
      = Some (YStr ''A greeting'')
   \<and> sample_data ''title'' = Some (YStr ''Hello'')
   \<and> matter sample_env (job_sourceContent sample_job) = Inr (sample_data, ''Hello there'')
   \<and> ''en'' \<notin> locales (job_article sample_job)
   \<and> snd (translate_turn sample_env flaky_translator sample_job ''en''
        (sample_world, \<lparr> success = [], failed = [] \<rparr>)) = \<lparr> success = [''en''], failed = [] \<rparr>
   \<and> (\<exists>translatedData.
        translatedData ''title'' = Some (YStr ''Hello'')
        \<and> files (fst (translate_turn sample_env flaky_translator sample_job ''en''
             (sample_world, \<lparr> success = [], failed = [] \<rparr>))) ''/blog/src/content/note/demo/en.md''
          = Some (matter_stringify sample_env
                    (js_text (generateWarningBox site_config ''note'' ''demo'' ''zh-cn'' ''en'')
                     @ ''Translated'')
                    translatedData))"
proof -
  let ?state = "(sample_world, \<lparr> success = [], failed = [] \<rparr>)"
  let ?w0 = "(fst ?state)\<lparr> console := console (fst ?state)
      @ [LogTranslatingTo (getLanguageName ''en'')] \<rparr>"
  let ?td = "fst (translateFields flaky_translator sample_data ''en'' ?w0)"
  have new: "''en'' \<notin> locales (job_article sample_job)"
    by (simp add: sample_job_def sample_article_def)
  have job: "job_sourceLocale sample_job = ''zh-cn''" "job_collection sample_job = Note"
    "job_articleId sample_job = ''demo''" "site sample_env = site_config"
    by (simp_all add: sample_job_def sample_env_def)
  have quiet: "calls sample_world = []" "calls ?w0 = []"
    by (simp_all add: sample_world_def)
  have title_fails: "\<forall>c. first_content (client flaky_translator (calls sample_world)
      (textRequest flaky_translator (YStr ''Hello'') ''en'')) = Inr (Some c) \<longrightarrow> js_trim c = []"
    by (simp add: quiet flaky_reply)
  have title_fails_turn: "\<forall>c. first_content (client flaky_translator (calls ?w0)
      (textRequest flaky_translator (YStr ''Hello'') ''en'')) = Inr (Some c) \<longrightarrow> js_trim c = []"
    by (simp add: quiet flaky_reply)
  have asked: "calls (snd (translateFields flaky_translator sample_data ''en'' ?w0)) \<noteq> []"
    by (simp add: translateFields_def translateField_calls sample_fields)
  have body: "first_content (client flaky_translator
      (calls (snd (translateFields flaky_translator sample_data ''en'' ?w0)))
      (markdownRequest flaky_translator ''Hello there'' (job_sourceLocale sample_job) ''en''))
      = Inr (Some ''Translated'')"
    using flaky_reply(2) [OF asked] by simp
  have trimmed: "js_trim ''Translated'' \<noteq> []"
    by (simp add: sample_trim)
  have rejected: "client sample_translator log
      (textRequest sample_translator (YStr ''A greeting'') ''en'') = Rejected" for log
    by (simp add: sample_translator_def textRequest_def sample_names)
  have description_fails: "\<forall>c. first_content (client sample_translator
      (calls (snd (translateField sample_translator sample_data ''title'' LogTranslatingTitle ''en''
         (sample_data, (fst ?state)\<lparr> console := console (fst ?state)
             @ [LogTranslatingTo (getLanguageName ''en'')] \<rparr>))))
      (textRequest sample_translator (YStr ''A greeting'') ''en'')) = Inr (Some c)
      \<longrightarrow> js_trim c = []"
    by (simp add: rejected)
  note first = field_translation_falls_back [where tr = sample_translator and t = "''en''"
      and w = sample_world and state = ?state and data = sample_data and e = sample_env
      and j = sample_job and content = "''Hello there''" and body = "''Translated''",
      unfolded Let_def]
  have description: "fst (translateFields sample_translator sample_data ''en''
        (sample_world\<lparr> console := console sample_world
            @ [LogTranslatingTo (getLanguageName ''en'')] \<rparr>)) ''description''
      = Some (YStr ''A greeting'')"
    using first [THEN conjunct2, THEN conjunct2, THEN conjunct2, THEN conjunct1, THEN mp, THEN mp,
        OF sample_fields(2) description_fails] by simp
  note inst = field_translation_falls_back [where tr = flaky_translator and t = "''en''"
      and w = sample_world and state = ?state and data = sample_data and e = sample_env
      and j = sample_job and content = "''Hello there''" and body = "''Translated''",
      unfolded Let_def]
  have same: "fst (translateText flaky_translator (YStr ''Hello'') ''en'' sample_world)
      = YStr ''Hello''"
    using inst [THEN conjunct2, THEN conjunct1, THEN mp, OF title_fails] .
  have kept: "?td ''title'' = Some (YStr ''Hello'')"
    using inst [THEN conjunct2, THEN conjunct2, THEN conjunct1, THEN mp, THEN mp,
        OF sample_fields(1) title_fails_turn] .
  note turn = inst [THEN conjunct2, THEN conjunct2, THEN conjunct2, THEN conjunct2,
      THEN mp, THEN mp, THEN mp, THEN mp, OF sample_parse new body trimmed]
  have stats: "snd (translate_turn sample_env flaky_translator sample_job ''en'' ?state)
      = \<lparr> success = [''en''], failed = [] \<rparr>"
    using turn [THEN conjunct1] by simp
  have written: "files (fst (translate_turn sample_env flaky_translator sample_job ''en'' ?state))
        ''/blog/src/content/note/demo/en.md''
      = Some (matter_stringify sample_env
                (js_text (generateWarningBox site_config ''note'' ''demo'' ''zh-cn'' ''en'')
                 @ ''Translated'')
                ?td)"
    using turn [THEN conjunct2, unfolded sample_paths] by (simp add: job sample_trim)
  from kept written have "\<exists>translatedData.
        translatedData ''title'' = Some (YStr ''Hello'')
        \<and> files (fst (translate_turn sample_env flaky_translator sample_job ''en'' ?state))
             ''/blog/src/content/note/demo/en.md''
          = Some (matter_stringify sample_env
                    (js_text (generateWarningBox site_config ''note'' ''demo'' ''zh-cn'' ''en'')
                     @ ''Translated'')
                    translatedData)"
    by (intro exI [of _ ?td] conjI)
  with same sample_fields(2) description sample_fields(1) sample_parse new stats show ?thesis
    by (intro conjI)
qed

text \<open>
  Claim C2. Let the source parse and let the target locale be new to the article. If the
  service has no translation for the body when it is asked (the call is rejected, the
  response has no choice, or its content is null or blank), \<^verbatim>\<open>translateMarkdown\<close> throws,
  and the turn of the loop for that locale writes no file, makes no directory and appends
  the locale to the failure list; the loop goes on with the remaining locales. If the
  service never has a translation for that body, then after a run of the loop over any
  list of locales the locale is in the failure list if it was asked for, it has not joined
  the success list, and, where the content directory is a plain absolute directory and
  the id of the article and the locales asked for are plain path segments, its file is as
  before the run. Every new locale asked for is in one of the two lists after the run, and
  one whose body translation always answers is in the success list with its file written.
\<close>

theorem body_failure_fails_that_locale_only:
  assumes parse: "matter e (job_sourceContent j) = Inr (data, content)"
    and new: "t \<notin> locales (job_article j)"
  shows "((\<forall>c. first_content (client tr (calls w)
                  (markdownRequest tr content (job_sourceLocale j) t)) = Inr (Some c)
                \<longrightarrow> js_trim c = []) \<longrightarrow>
          (\<exists>err. fst (translateMarkdown tr content (job_sourceLocale j) t w) = Inl err))
    \<and> ((\<forall>c. first_content
                (client tr
                   (calls (snd (translateFields tr data t
                      ((fst state)\<lparr> console := console (fst state)
                          @ [LogTranslatingTo (getLanguageName t)] \<rparr>))))
                   (markdownRequest tr content (job_sourceLocale j) t)) = Inr (Some c)
              \<longrightarrow> js_trim c = []) \<longrightarrow>
          snd (translate_turn e tr j t state) = (snd state)\<lparr> failed := failed (snd state) @ [t] \<rparr>
          \<and> files (fst (translate_turn e tr j t state)) = files (fst state)
          \<and> dirs (fst (translate_turn e tr j t state)) = dirs (fst state))
    \<and> translate_loop e tr j (t # ts) state
        = translate_loop e tr j ts (translate_turn e tr j t state)
    \<and> ((\<forall>log c. first_content (client tr log
                  (markdownRequest tr content (job_sourceLocale j) t)) = Inr (Some c)
                \<longrightarrow> js_trim c = []) \<longrightarrow>
          (t \<in> set ts \<longrightarrow> t \<in> set (failed (snd (translate_loop e tr j ts state))))
          \<and> (t \<in> set (success (snd (translate_loop e tr j ts state)))
               \<longrightarrow> t \<in> set (success (snd state)))
          \<and> (plain_directory (CONTENT_DIR e) \<and> plain_segment (article_id (job_article j))
              \<and> plain_segment t \<and> (\<forall>u\<in>set ts. plain_segment u) \<longrightarrow>
              files (fst (translate_loop e tr j ts state))
                (fst (getTargetArticlePath e (job_article j) (job_sourceLocale j) t (fst state)))
              = files (fst state)
                  (fst (getTargetArticlePath e (job_article j) (job_sourceLocale j) t
                     (fst state)))))
    \<and> (\<forall>u \<in> set ts. u \<notin> locales (job_article j) \<longrightarrow>
          (u \<in> set (success (snd (translate_loop e tr j ts state)))
           \<or> u \<in> set (failed (snd (translate_loop e tr j ts state))))
          \<and> ((\<forall>log. \<exists>c. first_content (client tr log
                  (markdownRequest tr content (job_sourceLocale j) u)) = Inr (Some c)
                \<and> js_trim c \<noteq> []) \<longrightarrow>
               u \<in> set (success (snd (translate_loop e tr j ts state)))
               \<and> files (fst (translate_loop e tr j ts state))
                    (fst (getTargetArticlePath e (job_article j) (job_sourceLocale j) u
                       (fst state))) \<noteq> None))"
proof -
  let ?w0 = "(fst state)\<lparr> console := console (fst state) @ [LogTranslatingTo (getLanguageName t)] \<rparr>"
  have thrown: "\<exists>err. fst (translateMarkdown tr content (job_sourceLocale j) t w) = Inl err"
    if "\<forall>c. first_content (client tr (calls w)
                  (markdownRequest tr content (job_sourceLocale j) t)) = Inr (Some c)
                \<longrightarrow> js_trim c = []"
    by (rule translateMarkdown_throws) (use that in blast)
  have turn: "snd (translate_turn e tr j t state) = (snd state)\<lparr> failed := failed (snd state) @ [t] \<rparr>
          \<and> files (fst (translate_turn e tr j t state)) = files (fst state)
          \<and> dirs (fst (translate_turn e tr j t state)) = dirs (fst state)"
    if now: "\<forall>c. first_content
                (client tr (calls (snd (translateFields tr data t ?w0)))
                   (markdownRequest tr content (job_sourceLocale j) t)) = Inr (Some c)
              \<longrightarrow> js_trim c = []"
  proof -
    have "\<exists>err. fst (translateArticle e tr (job_sourceContent j)
        (contentTypeName (job_collection j)) (job_articleId j) (job_sourceLocale j) t ?w0) = Inl err"
      using parse by (rule translateArticle_body_fails_now) (use now in blast)
    then obtain err where "fst (translateArticle e tr (job_sourceContent j)
        (contentTypeName (job_collection j)) (job_articleId j) (job_sourceLocale j) t ?w0) = Inl err"
      by blast
    with new show ?thesis by (rule translate_turn_failed)
  qed
  have loop: "(t \<in> set ts \<longrightarrow> t \<in> set (failed (snd (translate_loop e tr j ts state))))
          \<and> (t \<in> set (success (snd (translate_loop e tr j ts state)))
               \<longrightarrow> t \<in> set (success (snd state)))
          \<and> (plain_directory (CONTENT_DIR e) \<and> plain_segment (article_id (job_article j))
              \<and> plain_segment t \<and> (\<forall>u\<in>set ts. plain_segment u) \<longrightarrow>
              files (fst (translate_loop e tr j ts state))
                (fst (getTargetArticlePath e (job_article j) (job_sourceLocale j) t (fst state)))
              = files (fst state)
                  (fst (getTargetArticlePath e (job_article j) (job_sourceLocale j) t
                     (fst state))))"
    if always: "\<forall>log c. first_content (client tr log
                  (markdownRequest tr content (job_sourceLocale j) t)) = Inr (Some c)
                \<longrightarrow> js_trim c = []"
  proof -
    have article: "\<exists>err. fst (translateArticle e tr (job_sourceContent j)
        (contentTypeName (job_collection j)) (job_articleId j) (job_sourceLocale j) t w') = Inl err"
      for w'
      using parse by (rule translateArticle_body_fails) (use always in blast)
    from translate_loop_failing [OF new article, where ts = ts and state = state]
      translate_loop_failing_file [OF new article, where ts = ts and state = state
        and w = "fst state"]
    show ?thesis by blast
  qed
  have others: "(u \<in> set (success (snd (translate_loop e tr j ts state)))
           \<or> u \<in> set (failed (snd (translate_loop e tr j ts state))))
          \<and> ((\<forall>log. \<exists>c. first_content (client tr log
                  (markdownRequest tr content (job_sourceLocale j) u)) = Inr (Some c)
                \<and> js_trim c \<noteq> []) \<longrightarrow>
               u \<in> set (success (snd (translate_loop e tr j ts state)))
               \<and> files (fst (translate_loop e tr j ts state))
                    (fst (getTargetArticlePath e (job_article j) (job_sourceLocale j) u
                       (fst state))) \<noteq> None)"
    if u: "u \<in> set ts" "u \<notin> locales (job_article j)" for u
  proof
    show "u \<in> set (success (snd (translate_loop e tr j ts state)))
           \<or> u \<in> set (failed (snd (translate_loop e tr j ts state)))"
      using u by (rule translate_loop_processed)
    show "(\<forall>log. \<exists>c. first_content (client tr log
                  (markdownRequest tr content (job_sourceLocale j) u)) = Inr (Some c)
                \<and> js_trim c \<noteq> []) \<longrightarrow>
               u \<in> set (success (snd (translate_loop e tr j ts state)))
               \<and> files (fst (translate_loop e tr j ts state))
                    (fst (getTargetArticlePath e (job_article j) (job_sourceLocale j) u
                       (fst state))) \<noteq> None"
    proof
      assume "\<forall>log. \<exists>c. first_content (client tr log
                  (markdownRequest tr content (job_sourceLocale j) u)) = Inr (Some c)
                \<and> js_trim c \<noteq> []"
      then have ok: "\<exists>c. first_content (client tr log
                  (markdownRequest tr content (job_sourceLocale j) u)) = Inr (Some c)
                \<and> js_trim c \<noteq> []" for log
        by blast
      have "\<exists>out. fst (translateArticle e tr (job_sourceContent j)
          (contentTypeName (job_collection j)) (job_articleId j) (job_sourceLocale j) u w') = Inr out"
        for w'
        using translateArticle_body_ok [OF parse ok, where w = w'
            and collection = "contentTypeName (job_collection j)" and articleId = "job_articleId j"]
        by blast
      from translate_loop_succeeding [OF u(2) this, where ts = ts and state = state
          and w = "fst state"] u(1)
      show "u \<in> set (success (snd (translate_loop e tr j ts state)))
               \<and> files (fst (translate_loop e tr j ts state))
                    (fst (getTargetArticlePath e (job_article j) (job_sourceLocale j) u
                       (fst state))) \<noteq> None"
        by blast
    qed
  qed
  have step: "translate_loop e tr j (t # ts) state
        = translate_loop e tr j ts (translate_turn e tr j t state)"
    by simp
  from thrown turn step loop others show ?thesis
    by blast
qed

text \<open>
  In the sample run the service answers the Japanese body with a null content. Asked for
  Japanese, French and English, the loop records Japanese as failed and writes no
  Japanese file, and still writes the English one.
\<close>

theorem body_failure_fails_that_locale_only_witness:
  "''ja'' \<notin> locales (job_article sample_job)
   \<and> (\<exists>err. fst (translateMarkdown sample_translator ''Hello there'' ''zh-cn'' ''ja'' sample_world)
         = Inl err)
   \<and> ''ja'' \<in> set (failed (snd (translate_loop sample_env sample_translator sample_job
        [''ja'', ''fr'', ''en''] (sample_world, \<lparr> success = [], failed = [] \<rparr>))))
   \<and> ''ja'' \<notin> set (success (snd (translate_loop sample_env sample_translator sample_job
        [''ja'', ''fr'', ''en''] (sample_world, \<lparr> success = [], failed = [] \<rparr>))))
   \<and> files (fst (translate_loop sample_env sample_translator sample_job
        [''ja'', ''fr'', ''en''] (sample_world, \<lparr> success = [], failed = [] \<rparr>)))
        ''/blog/src/content/note/demo/ja.md'' = None
   \<and> ''en'' \<in> set (success (snd (translate_loop sample_env sample_translator sample_job
        [''ja'', ''fr'', ''en''] (sample_world, \<lparr> success = [], failed = [] \<rparr>))))
   \<and> files (fst (translate_loop sample_env sample_translator sample_job
        [''ja'', ''fr'', ''en''] (sample_world, \<lparr> success = [], failed = [] \<rparr>)))
        ''/blog/src/content/note/demo/en.md'' \<noteq> None"
proof -
  let ?state = "(sample_world, \<lparr> success = [], failed = [] \<rparr>)"
  let ?ts = "[''ja'', ''fr'', ''en'']"
  let ?loop = "translate_loop sample_env sample_translator sample_job ?ts ?state"
  have src: "job_sourceLocale sample_job = ''zh-cn''"
    by (simp add: sample_job_def)
  have new: "''ja'' \<notin> locales (job_article sample_job)"
    by (simp add: sample_job_def sample_article_def)
  have new_en: "''en'' \<notin> locales (job_article sample_job)"
    by (simp add: sample_job_def sample_article_def)
  have fails: "\<forall>log c. first_content (client sample_translator log
      (markdownRequest sample_translator ''Hello there'' (job_sourceLocale sample_job) ''ja''))
        = Inr (Some c) \<longrightarrow> js_trim c = []"
    by (simp add: src sample_body_reply_ja)
  have ok: "\<forall>log. \<exists>c. first_content (client sample_translator log
      (markdownRequest sample_translator ''Hello there'' (job_sourceLocale sample_job) ''en''))
        = Inr (Some c) \<and> js_trim c \<noteq> []"
    by (simp add: src sample_body_reply_en sample_trim)
  have path_ja: "fst (getTargetArticlePath sample_env (job_article sample_job)
      (job_sourceLocale sample_job) ''ja'' (fst ?state)) = ''/blog/src/content/note/demo/ja.md''"
    by (rule sample_paths)
  have path_en: "fst (getTargetArticlePath sample_env (job_article sample_job)
      (job_sourceLocale sample_job) ''en'' (fst ?state)) = ''/blog/src/content/note/demo/en.md''"
    by (rule sample_paths)
  have plain: "plain_directory (CONTENT_DIR sample_env)
      \<and> plain_segment (article_id (job_article sample_job))
      \<and> plain_segment ''ja'' \<and> (\<forall>u\<in>set ?ts. plain_segment u)"
    by (simp add: sample_plain)
  have before: "files (fst ?state) ''/blog/src/content/note/demo/ja.md'' = None"
    "success (snd ?state) = []"
    by (simp_all add: sample_world_def)
  have fails_now: "\<forall>c. first_content (client sample_translator (calls sample_world)
      (markdownRequest sample_translator ''Hello there'' (job_sourceLocale sample_job) ''ja''))
        = Inr (Some c) \<longrightarrow> js_trim c = []"
    by (simp add: src sample_body_reply_ja)
  note inst = body_failure_fails_that_locale_only [OF sample_parse new,
      where w = sample_world and state = ?state and ts = ?ts and tr = sample_translator]
  have thrown: "\<exists>err. fst (translateMarkdown sample_translator ''Hello there''
      (job_sourceLocale sample_job) ''ja'' sample_world) = Inl err"
    using inst [THEN conjunct1, THEN mp, OF fails_now] .
  note looped = inst [THEN conjunct2, THEN conjunct2, THEN conjunct2, THEN conjunct1, THEN mp,
      OF fails]
  have failed: "''ja'' \<in> set ?ts \<longrightarrow> ''ja'' \<in> set (failed (snd ?loop))"
    using looped by (elim conjE)
  have success: "''ja'' \<in> set (success (snd ?loop)) \<longrightarrow> ''ja'' \<in> set (success (snd ?state))"
    using looped by (elim conjE)
  have guarded: "plain_directory (CONTENT_DIR sample_env)
      \<and> plain_segment (article_id (job_article sample_job))
      \<and> plain_segment ''ja'' \<and> (\<forall>u\<in>set ?ts. plain_segment u) \<longrightarrow>
      files (fst ?loop) (fst (getTargetArticlePath sample_env (job_article sample_job)
          (job_sourceLocale sample_job) ''ja'' (fst ?state)))
        = files (fst ?state) (fst (getTargetArticlePath sample_env (job_article sample_job)
          (job_sourceLocale sample_job) ''ja'' (fst ?state)))"
    using looped by (elim conjE)
  have kept: "files (fst ?loop) (fst (getTargetArticlePath sample_env (job_article sample_job)
          (job_sourceLocale sample_job) ''ja'' (fst ?state)))
        = files (fst ?state) (fst (getTargetArticlePath sample_env (job_article sample_job)
          (job_sourceLocale sample_job) ''ja'' (fst ?state)))"
    using guarded [THEN mp, OF plain] .
  have others: "\<forall>u \<in> set ?ts. u \<notin> locales (job_article sample_job) \<longrightarrow>
          (u \<in> set (success (snd ?loop)) \<or> u \<in> set (failed (snd ?loop)))
          \<and> ((\<forall>log. \<exists>c. first_content (client sample_translator log
                  (markdownRequest sample_translator ''Hello there'' (job_sourceLocale sample_job) u))
                    = Inr (Some c) \<and> js_trim c \<noteq> []) \<longrightarrow>
               u \<in> set (success (snd ?loop))
               \<and> files (fst ?loop) (fst (getTargetArticlePath sample_env (job_article sample_job)
                     (job_sourceLocale sample_job) u (fst ?state))) \<noteq> None)"
    using inst by (elim conjE)
  have en: "''en'' \<in> set ?ts" by simp
  from others [THEN bspec, OF en] new_en ok
  have english: "''en'' \<in> set (success (snd ?loop))
      \<and> files (fst ?loop) (fst (getTargetArticlePath sample_env (job_article sample_job)
                     (job_sourceLocale sample_job) ''en'' (fst ?state))) \<noteq> None"
    by blast
  from thrown have "\<exists>err. fst (translateMarkdown sample_translator ''Hello there'' ''zh-cn'' ''ja''
      sample_world) = Inl err"
    by (simp add: src)
  moreover from failed have "''ja'' \<in> set (failed (snd ?loop))" by simp
  moreover from success have "''ja'' \<notin> set (success (snd ?loop))"
    by (auto simp: before)
  moreover from kept have "files (fst ?loop) ''/blog/src/content/note/demo/ja.md'' = None"
    by (simp only: path_ja before)
  moreover from english have "''en'' \<in> set (success (snd ?loop))
      \<and> files (fst ?loop) ''/blog/src/content/note/demo/en.md'' \<noteq> None"
    unfolding path_en .
  ultimately show ?thesis
    using new by blast
qed

end
